theory Spec2Isabelle
  imports Main "HOL-Library.Multiset"
begin

section \<open>The table model of package cleaner\<close>

text \<open>
  The Go struct \<^verbatim>\<open>DataFrame\<close> has three exported fields: the header slice, the row
  grid and the map of column types. Cells are Go strings, modelled as byte lists.
  A method with a pointer receiver is modelled by state passing: it returns the
  receiver as the call leaves it, paired with the values the Go method returns.
\<close>

datatype Type = TypeString | TypeInt | TypeFloat | TypeDate | TypeBool | TypeJSON

record DataFrame =
  Headers :: "string list"
  Data :: "string list list"
  Types :: "string \<rightharpoonup> Type"

text \<open>
  Every error value the package builds, one constructor per message format, with the
  values the message is formatted from. \<open>IndexOutOfRange\<close> stands for the run-time panic
  of an out-of-range slice index; \<open>OtherError\<close> is any error a caller-supplied processor
  may return.
\<close>

datatype error =
    EmptyHeaders
  | ShapeMismatch nat nat nat
  | ColumnNotFound string
  | ColumnAlreadyExists string
  | NoNewColumns
  | InvalidRegex string
  | DateParseFailure nat string string
  | ConversionError string
  | MissingProcessor nat
  | IndexOutOfRange
  | OtherError string

subsection \<open>Construction\<close>

text \<open>The loop of \<^verbatim>\<open>NewDataFrame\<close> over the rows, \<open>i\<close> the index of the first row left.\<close>

fun check_rows :: "nat \<Rightarrow> nat \<Rightarrow> string list list \<Rightarrow> error option" where
  "check_rows n i [] = None"
| "check_rows n i (row # rest) =
     (if length row \<noteq> n then Some (ShapeMismatch i (length row) n)
      else check_rows n (Suc i) rest)"

definition default_types :: "string list \<Rightarrow> (string \<rightharpoonup> Type)" where
  "default_types headers = foldl (\<lambda>types header. types(header \<mapsto> TypeString)) Map.empty headers"

definition NewDataFrame :: "string list \<Rightarrow> string list list \<Rightarrow> error + DataFrame" where
  "NewDataFrame headers data =
     (if length headers = 0 then Inl EmptyHeaders
      else case check_rows (length headers) 0 data of
             Some e \<Rightarrow> Inl e
           | None \<Rightarrow> Inr \<lparr>Headers = headers, Data = data, Types = default_types headers\<rparr>)"

text \<open>The rectangularity invariant of the data model.\<close>

definition rect :: "DataFrame \<Rightarrow> bool" where
  "rect df = list_all (\<lambda>row. length row = length (Headers df)) (Data df)"

text \<open>\<^verbatim>\<open>getColumnIndex\<close>: the position of the first header equal to the name, or -1.\<close>

fun index_from :: "int \<Rightarrow> string list \<Rightarrow> string \<Rightarrow> int" where
  "index_from i [] column = -1"
| "index_from i (header # rest) column =
     (if header = column then i else index_from (i + 1) rest column)"

definition getColumnIndex :: "DataFrame \<Rightarrow> string \<Rightarrow> int" where
  "getColumnIndex df column = index_from 0 (Headers df) column"

subsection \<open>Sequential operations\<close>

text \<open>
  The functions of Go's standard library that the package calls (\<^verbatim>\<open>strings.TrimSpace\<close>,
  \<^verbatim>\<open>strconv.ParseFloat\<close>, \<^verbatim>\<open>time.Parse\<close>, \<^verbatim>\<open>Time.Format\<close>, ...) are not part of the
  repository. Each operation takes the ones it calls as parameters, named after the Go
  function, so every general theorem holds whatever the library computes. A failing
  library call is \<open>None\<close>.
\<close>

text \<open>
  The loop \<^verbatim>\<open>for i := range df.Data\<close> with a body that rewrites row \<open>i\<close> in place and may
  return early with an error: the rows before the failing one stay rewritten, the
  failing row and the rows after it stay as they were.
\<close>

fun for_rows :: "(nat \<Rightarrow> string list \<Rightarrow> error + string list) \<Rightarrow> nat \<Rightarrow> string list list
    \<Rightarrow> string list list \<times> error option" where
  "for_rows body i [] = ([], None)"
| "for_rows body i (row # rest) =
     (case body i row of
        Inl e \<Rightarrow> (row # rest, Some e)
      | Inr row' \<Rightarrow> (case for_rows body (Suc i) rest of (rest', r) \<Rightarrow> (row' # rest', r)))"

text \<open>A cell-rewriting operation returns the receiver itself, or nil and the error.\<close>

definition finish :: "DataFrame \<Rightarrow> string list list \<times> error option
    \<Rightarrow> DataFrame \<times> (error + DataFrame)" where
  "finish df r =
     (case r of
        (rows, Some e) \<Rightarrow> (df\<lparr>Data := rows\<rparr>, Inl e)
      | (rows, None) \<Rightarrow> (df\<lparr>Data := rows\<rparr>, Inr (df\<lparr>Data := rows\<rparr>)))"

definition TrimColumns :: "(string \<Rightarrow> string) \<Rightarrow> DataFrame \<Rightarrow> DataFrame" where
  "TrimColumns TrimSpace df = df\<lparr>Data := map (map TrimSpace) (Data df)\<rparr>"

definition ReplaceNulls_body :: "nat \<Rightarrow> string \<Rightarrow> nat \<Rightarrow> string list \<Rightarrow> error + string list" where
  "ReplaceNulls_body colIndex defaultValue i row =
     (if \<not> colIndex < length row then Inl IndexOutOfRange
      else if row ! colIndex = [] then Inr (row[colIndex := defaultValue])
      else Inr row)"

definition ReplaceNulls :: "DataFrame \<Rightarrow> string \<Rightarrow> string \<Rightarrow> DataFrame \<times> (error + DataFrame)" where
  "ReplaceNulls df column defaultValue =
     (let colIndex = getColumnIndex df column in
      if colIndex = -1 then (df, Inl (ColumnNotFound column))
      else finish df (for_rows (ReplaceNulls_body (nat colIndex) defaultValue) 0 (Data df)))"

text \<open>The layout constants of Go's package time that the code names.\<close>

definition RFC3339 :: string where "RFC3339 = ''2006-01-02T15:04:05Z07:00''"
definition RFC3339Nano :: string where "RFC3339Nano = ''2006-01-02T15:04:05.999999999Z07:00''"
definition RFC1123 :: string where "RFC1123 = ''Mon, 02 Jan 2006 15:04:05 MST''"
definition RFC1123Z :: string where "RFC1123Z = ''Mon, 02 Jan 2006 15:04:05 -0700''"
definition RFC822 :: string where "RFC822 = ''02 Jan 06 15:04 MST''"
definition RFC822Z :: string where "RFC822Z = ''02 Jan 06 15:04 -0700''"
definition ANSIC :: string where "ANSIC = ''Mon Jan _2 15:04:05 2006''"
definition UnixDate :: string where "UnixDate = ''Mon Jan _2 15:04:05 MST 2006''"
definition RubyDate :: string where "RubyDate = ''Mon Jan 02 15:04:05 -0700 2006''"

text \<open>
  The body of the loop of \<^verbatim>\<open>CleanDates\<close>: four nested attempts, in the order of the
  source; \<open>layout\<close> is used for formatting only.
\<close>

definition CleanDates_body :: "(string \<Rightarrow> string \<Rightarrow> 't option) \<Rightarrow> ('t \<Rightarrow> string \<Rightarrow> string)
    \<Rightarrow> nat \<Rightarrow> string \<Rightarrow> string \<Rightarrow> nat \<Rightarrow> string list \<Rightarrow> error + string list" where
  "CleanDates_body Parse Format colIndex column layout i row =
     (if \<not> colIndex < length row then Inl IndexOutOfRange
      else if row ! colIndex = [] then Inr row
      else case Parse RFC3339 (row ! colIndex) of
        Some t \<Rightarrow> Inr (row[colIndex := Format t layout])
      | None \<Rightarrow>
         (case Parse ''2006-01-02'' (row ! colIndex) of
            Some t \<Rightarrow> Inr (row[colIndex := Format t layout])
          | None \<Rightarrow>
             (case Parse ''02/01/2006'' (row ! colIndex) of
                Some t \<Rightarrow> Inr (row[colIndex := Format t layout])
              | None \<Rightarrow>
                 (case Parse ''01/02/2006'' (row ! colIndex) of
                    Some t \<Rightarrow> Inr (row[colIndex := Format t layout])
                  | None \<Rightarrow> Inl (DateParseFailure i column (row ! colIndex))))))"

definition CleanDates :: "(string \<Rightarrow> string \<Rightarrow> 't option) \<Rightarrow> ('t \<Rightarrow> string \<Rightarrow> string)
    \<Rightarrow> DataFrame \<Rightarrow> string \<Rightarrow> string \<Rightarrow> DataFrame \<times> (error + DataFrame)" where
  "CleanDates Parse Format df column layout =
     (let colIndex = getColumnIndex df column in
      if colIndex = -1 then (df, Inl (ColumnNotFound column))
      else case for_rows (CleanDates_body Parse Format (nat colIndex) column layout) 0 (Data df) of
             (rows, Some e) \<Rightarrow> (df\<lparr>Data := rows\<rparr>, Inl e)
           | (rows, None) \<Rightarrow>
               (let df' = df\<lparr>Data := rows, Types := (Types df)(column \<mapsto> TypeDate)\<rparr>
                in (df', Inr df')))"

definition NormalizeCase_body :: "(string \<Rightarrow> string) \<Rightarrow> (string \<Rightarrow> string) \<Rightarrow> nat \<Rightarrow> bool
    \<Rightarrow> nat \<Rightarrow> string list \<Rightarrow> error + string list" where
  "NormalizeCase_body ToUpper ToLower colIndex toUpper i row =
     (if \<not> colIndex < length row then Inl IndexOutOfRange
      else if toUpper then Inr (row[colIndex := ToUpper (row ! colIndex)])
      else Inr (row[colIndex := ToLower (row ! colIndex)]))"

definition NormalizeCase :: "(string \<Rightarrow> string) \<Rightarrow> (string \<Rightarrow> string) \<Rightarrow> DataFrame \<Rightarrow> string
    \<Rightarrow> bool \<Rightarrow> DataFrame \<times> (error + DataFrame)" where
  "NormalizeCase ToUpper ToLower df column toUpper =
     (let colIndex = getColumnIndex df column in
      if colIndex = -1 then (df, Inl (ColumnNotFound column))
      else finish df (for_rows (NormalizeCase_body ToUpper ToLower (nat colIndex) toUpper) 0 (Data df)))"

definition RenameColumn :: "DataFrame \<Rightarrow> string \<Rightarrow> string \<Rightarrow> DataFrame \<times> (error + DataFrame)" where
  "RenameColumn df oldName newName =
     (let colIndex = getColumnIndex df oldName in
      if colIndex = -1 then (df, Inl (ColumnNotFound oldName))
      else if getColumnIndex df newName \<noteq> -1 then (df, Inl (ColumnAlreadyExists newName))
      else
        let headers = (Headers df)[nat colIndex := newName];
            types = (case Types df oldName of
                       Some t \<Rightarrow> ((Types df)(newName \<mapsto> t))(oldName := None)
                     | None \<Rightarrow> Types df);
            df' = df\<lparr>Headers := headers, Types := types\<rparr>
        in (df', Inr df'))"

definition CleanWithRegex_body :: "(string \<Rightarrow> string) \<Rightarrow> nat \<Rightarrow> nat \<Rightarrow> string list
    \<Rightarrow> error + string list" where
  "CleanWithRegex_body replace colIndex i row =
     (if \<not> colIndex < length row then Inl IndexOutOfRange
      else Inr (row[colIndex := replace (row ! colIndex)]))"

definition CleanWithRegex :: "(string \<Rightarrow> 're option) \<Rightarrow> ('re \<Rightarrow> string \<Rightarrow> string \<Rightarrow> string)
    \<Rightarrow> DataFrame \<Rightarrow> string \<Rightarrow> string \<Rightarrow> string \<Rightarrow> DataFrame \<times> (error + DataFrame)" where
  "CleanWithRegex Compile ReplaceAllString df column pattern replacement =
     (let colIndex = getColumnIndex df column in
      if colIndex = -1 then (df, Inl (ColumnNotFound column))
      else case Compile pattern of
        None \<Rightarrow> (df, Inl (InvalidRegex pattern))
      | Some re \<Rightarrow>
          finish df (for_rows (CleanWithRegex_body (\<lambda>s. ReplaceAllString re s replacement)
                                 (nat colIndex)) 0 (Data df)))"

text \<open>
  \<^verbatim>\<open>SplitColumn\<close>. The three loops build the new header list, the new rows and the new
  type map; the receiver's fields are assigned only after all three, so a panic in the
  row loop leaves the receiver as it was.
\<close>

fun first_existing :: "DataFrame \<Rightarrow> string list \<Rightarrow> string option" where
  "first_existing df [] = None"
| "first_existing df (newCol # rest) =
     (if getColumnIndex df newCol \<noteq> -1 then Some newCol else first_existing df rest)"

definition split_headers :: "nat \<Rightarrow> string list \<Rightarrow> string list \<Rightarrow> string list" where
  "split_headers colIndex newColumns headers =
     concat (map (\<lambda>(i, header). if i = colIndex then newColumns else [header])
               (enumerate 0 headers))"

definition split_cells :: "string list \<Rightarrow> string list \<Rightarrow> string list" where
  "split_cells parts newColumns =
     map (\<lambda>k. if k < length parts then parts ! k else []) [0..<length newColumns]"

definition split_row :: "(string \<Rightarrow> string \<Rightarrow> string list) \<Rightarrow> nat \<Rightarrow> string \<Rightarrow> string list
    \<Rightarrow> string list \<Rightarrow> error + string list" where
  "split_row Split colIndex separator newColumns row =
     (if \<not> colIndex < length row then Inl IndexOutOfRange
      else
        let parts = Split (row ! colIndex) separator
        in Inr (concat (map (\<lambda>(j, cell). if j = colIndex then split_cells parts newColumns
                                         else [cell])
                          (enumerate 0 row))))"

fun split_rows :: "(string list \<Rightarrow> error + string list) \<Rightarrow> string list list
    \<Rightarrow> error + string list list" where
  "split_rows f [] = Inr []"
| "split_rows f (row # rest) =
     (case f row of
        Inl e \<Rightarrow> Inl e
      | Inr newRow \<Rightarrow> (case split_rows f rest of Inl e \<Rightarrow> Inl e | Inr newData \<Rightarrow> Inr (newRow # newData)))"

definition SplitColumn :: "(string \<Rightarrow> string \<Rightarrow> string list) \<Rightarrow> DataFrame \<Rightarrow> string \<Rightarrow> string
    \<Rightarrow> string list \<Rightarrow> DataFrame \<times> (error + DataFrame)" where
  "SplitColumn Split df column separator newColumns =
     (let colIndex = getColumnIndex df column in
      if colIndex = -1 then (df, Inl (ColumnNotFound column))
      else if length newColumns = 0 then (df, Inl NoNewColumns)
      else case first_existing df newColumns of
        Some newCol \<Rightarrow> (df, Inl (ColumnAlreadyExists newCol))
      | None \<Rightarrow>
         (let newHeaders = split_headers (nat colIndex) newColumns (Headers df) in
          case split_rows (split_row Split (nat colIndex) separator newColumns) (Data df) of
            Inl e \<Rightarrow> (df, Inl e)
          | Inr newData \<Rightarrow>
             (let newTypes = foldl (\<lambda>types newCol. types(newCol \<mapsto> TypeString))
                               ((Types df)(column := None)) newColumns;
                  df' = \<lparr>Headers = newHeaders, Data = newData, Types = newTypes\<rparr>
              in (df', Inr df'))))"

text \<open>
  \<^verbatim>\<open>FilterOutliers\<close>. \<open>ParseFloat s\<close> is \<^verbatim>\<open>strconv.ParseFloat(s, 64)\<close>; \<open>le\<close> is the order
  of float64, so that \<^verbatim>\<open>val >= min && val <= max\<close> is \<open>le mn val \<and> le val mx\<close>. The loop
  collects the kept rows in \<open>filteredData\<close>; the receiver's rows are replaced after it.
\<close>

fun filter_loop :: "(string \<Rightarrow> 'f option) \<Rightarrow> ('f \<Rightarrow> 'f \<Rightarrow> bool) \<Rightarrow> nat \<Rightarrow> 'f \<Rightarrow> 'f
    \<Rightarrow> string list list \<Rightarrow> string list list \<Rightarrow> error + string list list" where
  "filter_loop ParseFloat le colIndex mn mx filteredData [] = Inr filteredData"
| "filter_loop ParseFloat le colIndex mn mx filteredData (row # rest) =
     (if \<not> colIndex < length row then Inl IndexOutOfRange
      else if row ! colIndex = [] then
        filter_loop ParseFloat le colIndex mn mx (filteredData @ [row]) rest
      else case ParseFloat (row ! colIndex) of
        None \<Rightarrow> Inl (ConversionError (row ! colIndex))
      | Some val \<Rightarrow>
          if le mn val \<and> le val mx then
            filter_loop ParseFloat le colIndex mn mx (filteredData @ [row]) rest
          else filter_loop ParseFloat le colIndex mn mx filteredData rest)"

definition FilterOutliers :: "(string \<Rightarrow> 'f option) \<Rightarrow> ('f \<Rightarrow> 'f \<Rightarrow> bool) \<Rightarrow> DataFrame \<Rightarrow> string
    \<Rightarrow> 'f \<Rightarrow> 'f \<Rightarrow> DataFrame \<times> (error + DataFrame)" where
  "FilterOutliers ParseFloat le df column mn mx =
     (let colIndex = getColumnIndex df column in
      if colIndex = -1 then (df, Inl (ColumnNotFound column))
      else case filter_loop ParseFloat le (nat colIndex) mn mx [] (Data df) of
        Inl e \<Rightarrow> (df, Inl e)
      | Inr filteredData \<Rightarrow> (df\<lparr>Data := filteredData\<rparr>, Inr (df\<lparr>Data := filteredData\<rparr>)))"

subsection \<open>Scalar utilities\<close>

definition parseFloat :: "(string \<Rightarrow> string) \<Rightarrow> (string \<Rightarrow> 'f option) \<Rightarrow> string \<Rightarrow> 'f option" where
  "parseFloat TrimSpace ParseFloat s = ParseFloat (TrimSpace s)"

definition parseDate_formats :: "string \<Rightarrow> string list" where
  "parseDate_formats layout =
     [layout,
      ''2006-01-02'', ''2006/01/02'', ''02-01-2006'', ''02/01/2006'', ''01-02-2006'',
      ''01/02/2006'',
      ''2006-01-02 15:04:05'', ''2006/01/02 15:04:05'', ''02-01-2006 15:04:05'',
      ''02/01/2006 15:04:05'', ''01-02-2006 15:04:05'', ''01/02/2006 15:04:05'',
      RFC3339, RFC3339Nano, RFC1123, RFC1123Z, RFC822, RFC822Z, ANSIC, UnixDate, RubyDate]"

fun try_formats :: "(string \<Rightarrow> string \<Rightarrow> 't option) \<Rightarrow> string list \<Rightarrow> string \<Rightarrow> 't option" where
  "try_formats Parse [] s = None"
| "try_formats Parse (format # rest) s =
     (case Parse format s of Some t \<Rightarrow> Some t | None \<Rightarrow> try_formats Parse rest s)"

definition parseDate :: "(string \<Rightarrow> string \<Rightarrow> 't option) \<Rightarrow> string \<Rightarrow> string \<Rightarrow> 't option" where
  "parseDate Parse s layout = try_formats Parse (parseDate_formats layout) s"

subsection \<open>The worker pool\<close>

record ParallelOptions =
  MaxWorkers :: int

definition defaultParallelOptions :: "int \<Rightarrow> ParallelOptions" where
  "defaultParallelOptions NumCPU = \<lparr>MaxWorkers = NumCPU\<rparr>"

definition WithMaxWorkers :: "int \<Rightarrow> ParallelOptions \<Rightarrow> ParallelOptions" where
  "WithMaxWorkers maxWorkers opts = (if maxWorkers > 0 then opts\<lparr>MaxWorkers := maxWorkers\<rparr> else opts)"

definition numWorkers :: "int \<Rightarrow> (ParallelOptions \<Rightarrow> ParallelOptions) list \<Rightarrow> nat \<Rightarrow> int" where
  "numWorkers NumCPU options jobs =
     (let opts = foldl (\<lambda>opts option. option opts) (defaultParallelOptions NumCPU) options
      in if MaxWorkers opts > int jobs then int jobs else MaxWorkers opts)"

text \<open>
  Every parallel operation sends the jobs \<open>0, ..., n - 1\<close> into a channel that holds them
  all, starts \<open>numWorkers\<close> workers and reads the result channel until the workers have
  closed it. \<^verbatim>\<open>runtime.NumCPU()\<close> is at least 1 and \<^verbatim>\<open>WithMaxWorkers\<close> ignores a value
  that is not positive, so with a job to do at least one worker runs, and every job is
  run exactly once. What the scheduler decides is the order in which the results reach
  the driver: the list \<open>order\<close> of job indices, a parameter of every parallel operation.
  \<open>arrival n order\<close> says that \<open>order\<close> is such an order for \<open>n\<close> jobs.
\<close>

definition arrival :: "nat \<Rightarrow> nat list \<Rightarrow> bool" where
  "arrival n order = (mset order = mset [0..<n])"

definition parallelizeRows :: "(string list \<Rightarrow> string list) \<Rightarrow> nat list \<Rightarrow> DataFrame
    \<Rightarrow> DataFrame" where
  "parallelizeRows processor order df =
     (if length (Data df) = 0 then df
      else
        let results = map (\<lambda>j. (j, processor (Data df ! j))) order;
            newData = foldl (\<lambda>newData (index, row). newData[index := row])
                        (replicate (length (Data df)) []) results
        in df\<lparr>Data := newData\<rparr>)"

text \<open>
  \<^verbatim>\<open>parallelizeColumns\<close>: one job per row and selected column. A job rewrites its cell
  in the row it shares with the table and reports the row; jobs are run one at a time
  here, in the order their results arrive. An index panic in a worker ends the program.
\<close>

fun run_jobs :: "(string list \<Rightarrow> nat \<Rightarrow> error + string list) \<Rightarrow> (nat \<times> nat) list
    \<Rightarrow> string list list \<Rightarrow> string list list \<times> error option" where
  "run_jobs processor [] rows = (rows, None)"
| "run_jobs processor ((rowIdx, colIdx) # rest) rows =
     (case processor (rows ! rowIdx) colIdx of
        Inl e \<Rightarrow> (rows, Some e)
      | Inr row \<Rightarrow> run_jobs processor rest (rows[rowIdx := row]))"

definition parallelizeColumns :: "int list \<Rightarrow> (string list \<Rightarrow> nat \<Rightarrow> error + string list)
    \<Rightarrow> nat list \<Rightarrow> DataFrame \<Rightarrow> DataFrame \<times> error option" where
  "parallelizeColumns columnIndices processor order df =
     (if length (Data df) = 0 then (df, None)
      else
        let indices = map nat (filter (\<lambda>idx. idx \<ge> 0 \<and> idx < int (length (Headers df)))
                                 columnIndices)
        in if length indices = 0 then (df, None)
           else
             let jobs = concat (map (\<lambda>i. map (\<lambda>colIdx. (i, colIdx)) indices)
                                  [0..<length (Data df)])
             in case run_jobs processor (map (\<lambda>k. jobs ! k) order) (Data df) of
                  (rows, r) \<Rightarrow> (df\<lparr>Data := rows\<rparr>, r))"

definition returned :: "DataFrame \<times> error option \<Rightarrow> DataFrame \<times> (error + DataFrame)" where
  "returned r = (case r of (df, None) \<Rightarrow> (df, Inr df) | (df, Some e) \<Rightarrow> (df, Inl e))"

subsection \<open>Parallel operations\<close>

definition TrimColumnsParallel :: "(string \<Rightarrow> string) \<Rightarrow> nat list \<Rightarrow> DataFrame \<Rightarrow> DataFrame" where
  "TrimColumnsParallel TrimSpace order df = parallelizeRows (map TrimSpace) order df"

definition ReplaceNullsParallel :: "nat list \<Rightarrow> DataFrame \<Rightarrow> string \<Rightarrow> string
    \<Rightarrow> DataFrame \<times> (error + DataFrame)" where
  "ReplaceNullsParallel order df column defaultValue =
     (let colIndex = getColumnIndex df column in
      if colIndex = -1 then (df, Inl (ColumnNotFound column))
      else returned (parallelizeColumns [colIndex]
             (\<lambda>row colIdx.
                if \<not> colIdx < length row then Inl IndexOutOfRange
                else if row ! colIdx = [] then Inr (row[colIdx := defaultValue])
                else Inr row)
             order df))"

definition CleanDatesParallel :: "(string \<Rightarrow> string \<Rightarrow> 't option) \<Rightarrow> ('t \<Rightarrow> string \<Rightarrow> string)
    \<Rightarrow> nat list \<Rightarrow> DataFrame \<Rightarrow> string \<Rightarrow> string \<Rightarrow> DataFrame \<times> (error + DataFrame)" where
  "CleanDatesParallel Parse Format order df column layout =
     (let colIndex = getColumnIndex df column in
      if colIndex = -1 then (df, Inl (ColumnNotFound column))
      else returned (parallelizeColumns [colIndex]
             (\<lambda>row colIdx.
                if \<not> colIdx < length row then Inl IndexOutOfRange
                else if row ! colIdx = [] then Inr row
                else case parseDate Parse (row ! colIdx) layout of
                  None \<Rightarrow> Inr row
                | Some t \<Rightarrow> Inr (row[colIdx := Format t layout]))
             order df))"

definition NormalizeCaseParallel :: "(string \<Rightarrow> string) \<Rightarrow> (string \<Rightarrow> string) \<Rightarrow> nat list
    \<Rightarrow> DataFrame \<Rightarrow> string \<Rightarrow> bool \<Rightarrow> DataFrame \<times> (error + DataFrame)" where
  "NormalizeCaseParallel ToUpper ToLower order df column toUpper =
     (let colIndex = getColumnIndex df column in
      if colIndex = -1 then (df, Inl (ColumnNotFound column))
      else returned (parallelizeColumns [colIndex]
             (\<lambda>row colIdx.
                if \<not> colIdx < length row then Inl IndexOutOfRange
                else if toUpper then Inr (row[colIdx := ToUpper (row ! colIdx)])
                else Inr (row[colIdx := ToLower (row ! colIdx)]))
             order df))"

definition CleanWithRegexParallel :: "(string \<Rightarrow> 're option)
    \<Rightarrow> ('re \<Rightarrow> string \<Rightarrow> string \<Rightarrow> string) \<Rightarrow> nat list \<Rightarrow> DataFrame \<Rightarrow> string \<Rightarrow> string
    \<Rightarrow> string \<Rightarrow> DataFrame \<times> (error + DataFrame)" where
  "CleanWithRegexParallel Compile ReplaceAllString order df column pattern replacement =
     (let colIndex = getColumnIndex df column in
      if colIndex = -1 then (df, Inl (ColumnNotFound column))
      else case Compile pattern of
        None \<Rightarrow> (df, Inl (InvalidRegex pattern))
      | Some re \<Rightarrow>
          returned (parallelizeColumns [colIndex]
            (\<lambda>row colIdx.
               if \<not> colIdx < length row then Inl IndexOutOfRange
               else Inr (row[colIdx := ReplaceAllString re (row ! colIdx) replacement]))
            order df))"

text \<open>
  \<^verbatim>\<open>FilterOutliersParallel\<close>. A worker reports \<open>(rowIndex, keep)\<close>; the driver appends the
  kept rows as the results arrive. The result is a new table that shares the headers
  and the type map; the receiver is not assigned to. A worker that indexes a row too
  short for the column panics, which ends the program whatever the order.
\<close>

definition keep_row :: "(string \<Rightarrow> string) \<Rightarrow> (string \<Rightarrow> 'f option) \<Rightarrow> ('f \<Rightarrow> 'f \<Rightarrow> bool) \<Rightarrow> nat
    \<Rightarrow> 'f \<Rightarrow> 'f \<Rightarrow> string list \<Rightarrow> bool" where
  "keep_row TrimSpace ParseFloat le colIndex mn mx row =
     (let v = row ! colIndex in
      if v = [] then True
      else case parseFloat TrimSpace ParseFloat v of
        None \<Rightarrow> True
      | Some num \<Rightarrow> le mn num \<and> le num mx)"

definition FilterOutliersParallel :: "(string \<Rightarrow> string) \<Rightarrow> (string \<Rightarrow> 'f option)
    \<Rightarrow> ('f \<Rightarrow> 'f \<Rightarrow> bool) \<Rightarrow> nat list \<Rightarrow> DataFrame \<Rightarrow> string \<Rightarrow> 'f \<Rightarrow> 'f
    \<Rightarrow> DataFrame \<times> (error + DataFrame)" where
  "FilterOutliersParallel TrimSpace ParseFloat le order df column mn mx =
     (let colIndex = getColumnIndex df column in
      if colIndex = -1 then (df, Inl (ColumnNotFound column))
      else if \<not> list_all (\<lambda>row. nat colIndex < length row) (Data df) then (df, Inl IndexOutOfRange)
      else
        let results = map (\<lambda>rowIndex. (rowIndex,
                        keep_row TrimSpace ParseFloat le (nat colIndex) mn mx (Data df ! rowIndex)))
                        order;
            filteredData = foldl (\<lambda>filteredData (index, keep).
                                     if keep then filteredData @ [Data df ! index]
                                     else filteredData)
                             [] results
        in (df, Inr \<lparr>Headers = Headers df, Data = filteredData, Types = Types df\<rparr>))"

text \<open>
  \<^verbatim>\<open>Copy\<close> and \<^verbatim>\<open>BatchProcessParallel\<close>. A processor is a function from the table it is
  handed to the pair it returns: an error, or a table pointer that may be nil.
\<close>

definition Copy :: "DataFrame \<Rightarrow> DataFrame" where
  "Copy df = \<lparr>Headers = [] @ Headers df,
              Data = map (\<lambda>row. take (length row) row) (Data df),
              Types = (\<lambda>k. Types df k)\<rparr>"

fun collect :: "(nat \<times> (error + DataFrame option)) list \<Rightarrow> (nat \<rightharpoonup> DataFrame option)
    \<Rightarrow> error + (nat \<rightharpoonup> DataFrame option)" where
  "collect [] resultMap = Inr resultMap"
| "collect ((index, r) # rest) resultMap =
     (case r of
        Inl err \<Rightarrow> Inl err
      | Inr d \<Rightarrow> collect rest (resultMap(index \<mapsto> d)))"

fun combine :: "(nat \<rightharpoonup> DataFrame option) \<Rightarrow> nat list \<Rightarrow> DataFrame option
    \<Rightarrow> error + DataFrame option" where
  "combine resultMap [] resultDF = Inr resultDF"
| "combine resultMap (i # rest) resultDF =
     (case resultMap i of
        None \<Rightarrow> Inl (MissingProcessor i)
      | Some d \<Rightarrow> combine resultMap rest d)"

definition BatchProcessParallel :: "nat list \<Rightarrow> DataFrame
    \<Rightarrow> (DataFrame \<Rightarrow> error + DataFrame option) list \<Rightarrow> DataFrame \<times> (error + DataFrame option)" where
  "BatchProcessParallel order df processors =
     (if length processors = 0 then (df, Inr (Some df))
      else
        let results = map (\<lambda>index. (index, (processors ! index) (Copy df))) order
        in case collect results Map.empty of
             Inl err \<Rightarrow> (df, Inl err)
           | Inr resultMap \<Rightarrow>
               (df, combine resultMap [0..<length processors] (Some (Copy df))))"

subsection \<open>A fragment of the Go library, for evaluation\<close>

text \<open>
  The closed examples below run the operations on functions that compute what Go's
  library computes on the inputs used there:
  \<^item> \<open>strings_TrimSpace\<close> is \<^verbatim>\<open>strings.TrimSpace\<close> on ASCII strings;
  \<^item> \<open>strconv_ParseFloat\<close> is \<^verbatim>\<open>strconv.ParseFloat(s, 64)\<close> on strings of at most 15 decimal
    digits (the value, exact in float64) and on strings that hold a character no float
    syntax of Go has (failure); \<open>float_le\<close> is the order of the values;
  \<^item> \<open>time_Parse\<close> and \<open>time_Format\<close> are \<^verbatim>\<open>time.Parse\<close> and \<^verbatim>\<open>Time.Format\<close> for layouts
    made of the reference elements \<^verbatim>\<open>2006 01 02 15 04 05\<close> and literal text. Another
    reference element (\<^verbatim>\<open>Jan\<close>, \<^verbatim>\<open>Mon\<close>, \<^verbatim>\<open>MST\<close>, \<^verbatim>\<open>Z07:00\<close>, \<^verbatim>\<open>_2\<close>, ...) is recognised
    as \<open>stdOther\<close>, where parsing stops with a failure: the fragment agrees with Go on a
    value that Go rejects before or at that element.
\<close>

definition asciiSpace :: "char \<Rightarrow> bool" where
  "asciiSpace c = (c \<in> set [CHR 0x09, CHR 0x0A, CHR 0x0B, CHR 0x0C, CHR 0x0D, CHR '' ''])"

definition strings_TrimSpace :: "string \<Rightarrow> string" where
  "strings_TrimSpace s = rev (dropWhile asciiSpace (rev (dropWhile asciiSpace s)))"

definition isDigit :: "char \<Rightarrow> bool" where
  "isDigit c = (c \<in> set ''0123456789'')"

definition digit_val :: "char \<Rightarrow> nat" where
  "digit_val c = length (takeWhile (\<lambda>d. d \<noteq> c) ''0123456789'')"

definition atoi :: "string \<Rightarrow> nat option" where
  "atoi s = (if s \<noteq> [] \<and> list_all isDigit s
             then Some (foldl (\<lambda>n c. 10 * n + digit_val c) 0 s) else None)"

definition strconv_ParseFloat :: "string \<Rightarrow> int option" where
  "strconv_ParseFloat s = (if length s \<le> 15 then map_option int (atoi s) else None)"

definition float_le :: "int \<Rightarrow> int \<Rightarrow> bool" where
  "float_le a b = (a \<le> b)"

record date_time =
  year :: nat
  month :: nat
  day :: nat
  hour :: nat
  minute :: nat
  second :: nat

datatype std = stdLongYear | stdZeroMonth | stdZeroDay | stdHour | stdZeroMinute
  | stdZeroSecond | stdOther

datatype chunk = Lit char | Std std

text \<open>
  Whether a layout starts with a reference element outside the fragment, following the
  cases of \<^verbatim>\<open>nextStdChunk\<close> in Go's package time.
\<close>

definition starts_frac :: "string \<Rightarrow> bool" where
  "starts_frac l =
     (case l of
        c # n # rest \<Rightarrow>
          (c = CHR ''.'' \<or> c = CHR '','') \<and> (n = CHR ''0'' \<or> n = CHR ''9'') \<and>
          (case dropWhile (\<lambda>x. x = n) rest of [] \<Rightarrow> True | d # _ \<Rightarrow> \<not> isDigit d)
      | _ \<Rightarrow> False)"

definition starts_other :: "string \<Rightarrow> bool" where
  "starts_other l =
     (take 3 l = ''Jan'' \<or> take 3 l = ''Mon'' \<or> take 3 l = ''MST'' \<or>
      take 2 l = ''03'' \<or> take 2 l = ''06'' \<or> take 3 l = ''002'' \<or>
      take 1 l = ''1'' \<or> take 1 l = ''2'' \<or> take 1 l = ''3'' \<or> take 1 l = ''4'' \<or>
      take 1 l = ''5'' \<or>
      (take 2 l = ''_2'' \<and> take 5 l \<noteq> ''_2006'') \<or> take 3 l = ''__2'' \<or>
      take 2 l = ''PM'' \<or> take 2 l = ''pm'' \<or> take 3 l = ''-07'' \<or> take 3 l = ''Z07'' \<or>
      starts_frac l)"

text \<open>The layout as its sequence of elements; \<open>k\<close> characters of an element are still to skip.\<close>

fun chunks :: "nat \<Rightarrow> string \<Rightarrow> chunk list" where
  "chunks k [] = []"
| "chunks (Suc k) (c # cs) = chunks k cs"
| "chunks 0 (c # cs) =
     (if take 4 (c # cs) = ''2006'' then Std stdLongYear # chunks 3 cs
      else if take 2 (c # cs) = ''01'' then Std stdZeroMonth # chunks 1 cs
      else if take 2 (c # cs) = ''02'' then Std stdZeroDay # chunks 1 cs
      else if take 2 (c # cs) = ''15'' then Std stdHour # chunks 1 cs
      else if take 2 (c # cs) = ''04'' then Std stdZeroMinute # chunks 1 cs
      else if take 2 (c # cs) = ''05'' then Std stdZeroSecond # chunks 1 cs
      else if starts_other (c # cs) then [Std stdOther]
      else Lit c # chunks 0 cs)"

text \<open>\<^verbatim>\<open>getnum\<close>: one or two digits, two when \<open>fixed\<close>.\<close>

definition getnum :: "string \<Rightarrow> bool \<Rightarrow> (nat \<times> string) option" where
  "getnum s fixed =
     (case s of
        [] \<Rightarrow> None
      | a # r \<Rightarrow>
          if \<not> isDigit a then None
          else (case r of
                  [] \<Rightarrow> if fixed then None else Some (digit_val a, r)
                | b # r' \<Rightarrow>
                    if \<not> isDigit b then (if fixed then None else Some (digit_val a, r))
                    else Some (digit_val a * 10 + digit_val b, r')))"

definition skip_frac :: "string \<Rightarrow> string" where
  "skip_frac v =
     (case v of
        p # d # r \<Rightarrow>
          if (p = CHR ''.'' \<or> p = CHR '','') \<and> isDigit d then dropWhile isDigit r else v
      | _ \<Rightarrow> v)"

definition isLeap :: "nat \<Rightarrow> bool" where
  "isLeap y = (y mod 4 = 0 \<and> (y mod 100 \<noteq> 0 \<or> y mod 400 = 0))"

definition daysIn :: "nat \<Rightarrow> nat \<Rightarrow> nat" where
  "daysIn m y =
     (if m = 2 then (if isLeap y then 29 else 28)
      else if m = 4 \<or> m = 6 \<or> m = 9 \<or> m = 11 then 30 else 31)"

text \<open>
  The loop of \<^verbatim>\<open>time.Parse\<close> over the layout. \<open>sp\<close> holds while a run of spaces of the
  layout is being skipped: \<^verbatim>\<open>skip\<close> lets it match any run of spaces of the value, or its
  end. A fractional second after the seconds is read and dropped (no element of the
  fragment prints it).
\<close>

fun parse_chunks :: "chunk list \<Rightarrow> bool \<Rightarrow> string \<Rightarrow> date_time \<Rightarrow> date_time option" where
  "parse_chunks [] sp v t =
     (if v \<noteq> [] then None
      else if day t < 1 \<or> day t > daysIn (month t) (year t) then None
      else Some t)"
| "parse_chunks (Lit c # cs) sp v t =
     (if c = CHR '' '' then
        (if sp then parse_chunks cs True v t
         else if v \<noteq> [] \<and> hd v \<noteq> CHR '' '' then None
         else parse_chunks cs True (dropWhile (\<lambda>x. x = CHR '' '') v) t)
      else if v = [] \<or> hd v \<noteq> c then None
      else parse_chunks cs False (tl v) t)"
| "parse_chunks (Std stdLongYear # cs) sp v t =
     (if length v < 4 \<or> \<not> isDigit (hd v) then None
      else case atoi (take 4 v) of
        None \<Rightarrow> None
      | Some y \<Rightarrow> parse_chunks cs False (drop 4 v) (t\<lparr>year := y\<rparr>))"
| "parse_chunks (Std stdZeroMonth # cs) sp v t =
     (case getnum v True of
        None \<Rightarrow> None
      | Some (m, v') \<Rightarrow>
          if m \<le> 0 \<or> 12 < m then None else parse_chunks cs False v' (t\<lparr>month := m\<rparr>))"
| "parse_chunks (Std stdZeroDay # cs) sp v t =
     (case getnum v True of
        None \<Rightarrow> None
      | Some (d, v') \<Rightarrow> parse_chunks cs False v' (t\<lparr>day := d\<rparr>))"
| "parse_chunks (Std stdHour # cs) sp v t =
     (case getnum v False of
        None \<Rightarrow> None
      | Some (h, v') \<Rightarrow>
          if 24 \<le> h then None else parse_chunks cs False v' (t\<lparr>hour := h\<rparr>))"
| "parse_chunks (Std stdZeroMinute # cs) sp v t =
     (case getnum v True of
        None \<Rightarrow> None
      | Some (m, v') \<Rightarrow>
          if 60 \<le> m then None else parse_chunks cs False v' (t\<lparr>minute := m\<rparr>))"
| "parse_chunks (Std stdZeroSecond # cs) sp v t =
     (case getnum v True of
        None \<Rightarrow> None
      | Some (s, v') \<Rightarrow>
          if 60 \<le> s then None else parse_chunks cs False (skip_frac v') (t\<lparr>second := s\<rparr>))"
| "parse_chunks (Std stdOther # cs) sp v t = None"

definition time_Parse :: "string \<Rightarrow> string \<Rightarrow> date_time option" where
  "time_Parse layout v =
     parse_chunks (chunks 0 layout) False v
       \<lparr>year = 0, month = 1, day = 1, hour = 0, minute = 0, second = 0\<rparr>"

fun zero_pad :: "nat \<Rightarrow> nat \<Rightarrow> string" where
  "zero_pad 0 n = []"
| "zero_pad (Suc w) n = zero_pad w (n div 10) @ [''0123456789'' ! (n mod 10)]"

fun format_chunk :: "date_time \<Rightarrow> chunk \<Rightarrow> string" where
  "format_chunk t (Lit c) = [c]"
| "format_chunk t (Std stdLongYear) = zero_pad 4 (year t)"
| "format_chunk t (Std stdZeroMonth) = zero_pad 2 (month t)"
| "format_chunk t (Std stdZeroDay) = zero_pad 2 (day t)"
| "format_chunk t (Std stdHour) = zero_pad 2 (hour t)"
| "format_chunk t (Std stdZeroMinute) = zero_pad 2 (minute t)"
| "format_chunk t (Std stdZeroSecond) = zero_pad 2 (second t)"
| "format_chunk t (Std stdOther) = []"

definition time_Format :: "date_time \<Rightarrow> string \<Rightarrow> string" where
  "time_Format t layout = concat (map (format_chunk t) (chunks 0 layout))"

subsection \<open>Example tables\<close>

definition people :: DataFrame where
  "people = \<lparr>Headers = [''Name'', ''Age''], Data = [[''Ali'', ''''], [''Ayse'', ''25'']],
     Types = default_types [''Name'', ''Age'']\<rparr>"

definition padded :: DataFrame where
  "padded = \<lparr>Headers = [''Name'', ''Age''],
     Data = [[''  Ali  '', '' 30 ''], [''Ayse  '', ''25'']],
     Types = default_types [''Name'', ''Age'']\<rparr>"

definition salaries :: DataFrame where
  "salaries = \<lparr>Headers = [''Name'', ''Salary''],
     Data = [[''Ali'', ''5000''], [''Can'', ''1000''], [''Bad'', ''abc'']],
     Types = default_types [''Name'', ''Salary'']\<rparr>"

definition payroll :: DataFrame where
  "payroll = \<lparr>Headers = [''Name'', ''Age'', ''Salary''],
     Data = [[''Ali'', ''30'', ''5000''], [''Ayse'', ''25'', ''4500''],
             [''Mehmet'', ''40'', ''15000''], [''Zeynep'', ''35'', ''6000''],
             [''Can'', ''28'', ''1000'']],
     Types = default_types [''Name'', ''Age'', ''Salary'']\<rparr>"

text \<open>
  The layouts that the nested attempts of \<^verbatim>\<open>CleanDates\<close> pass to \<^verbatim>\<open>time.Parse\<close>, in the
  order of the attempts.
\<close>

definition CleanDates_formats :: "string list" where
  "CleanDates_formats = [RFC3339, ''2006-01-02'', ''02/01/2006'', ''01/02/2006'']"

definition visits :: DataFrame where
  "visits = \<lparr>Headers = [''Name'', ''Date''], Data = [[''Ali'', ''15.01.1990'']],
     Types = default_types [''Name'', ''Date'']\<rparr>"

definition trips :: DataFrame where
  "trips = \<lparr>Headers = [''Name'', ''Date''], Data = [[''Ali'', ''03/04/2020'']],
     Types = default_types [''Name'', ''Date'']\<rparr>"

definition births :: DataFrame where
  "births = \<lparr>Headers = [''Name'', ''BirthDate''],
     Data = [[''Ali'', ''1990-01-15''], [''Ayse'', ''20/05/1995''], [''Can'', ''invalid-date''],
             [''Zeynep'', ''01/03/1985'']],
     Types = default_types [''Name'', ''BirthDate'']\<rparr>"

definition birthdays :: DataFrame where
  "birthdays = \<lparr>Headers = [''Name'', ''BirthDate''],
     Data = [[''Ali'', ''1990-01-15''], [''Ayse'', ''20/05/1995''], [''Veli'', ''''],
             [''Zeynep'', ''01/03/1985'']],
     Types = default_types [''Name'', ''BirthDate'']\<rparr>"

text \<open>Three processors for \<^verbatim>\<open>BatchProcessParallel\<close>, written with the operations above.\<close>

definition fill_age :: "DataFrame \<Rightarrow> error + DataFrame option" where
  "fill_age d = map_sum id Some (snd (ReplaceNulls d ''Age'' ''0''))"

definition fill_name :: "DataFrame \<Rightarrow> error + DataFrame option" where
  "fill_name d = map_sum id Some (snd (ReplaceNulls d ''Name'' ''?''))"

definition fill_city :: "DataFrame \<Rightarrow> error + DataFrame option" where
  "fill_city d = map_sum id Some (snd (ReplaceNulls d ''City'' ''?''))"

section \<open>Construction: shape errors\<close>

lemma check_rows_None:
  "(check_rows n i data = None) = (\<forall>row \<in> set data. length row = n)"
  by (induction data arbitrary: i) auto

lemma check_rows_first:
  assumes "k < length data" "length (data ! k) \<noteq> n"
    and "\<forall>j<k. length (data ! j) = n"
  shows "check_rows n i data = Some (ShapeMismatch (i + k) (length (data ! k)) n)"
  using assms
proof (induction data arbitrary: i k)
  case Nil
  then show ?case by simp
next
  case (Cons row rest)
  show ?case
  proof (cases k)
    case 0
    with Cons.prems show ?thesis by simp
  next
    case (Suc m)
    from Cons.prems(3) Suc have hd: "length row = n" by auto
    have "\<forall>j<m. length (rest ! j) = n"
      using Cons.prems(3) Suc by auto
    with Cons.IH [of m "Suc i"] Cons.prems Suc hd show ?thesis by simp
  qed
qed

lemma default_types_fold:
  "foldl (\<lambda>types header. types(header \<mapsto> TypeString)) m headers h =
     (if h \<in> set headers then Some TypeString else m h)"
  by (induction headers arbitrary: m) auto

lemma default_types_apply:
  "default_types headers h = (if h \<in> set headers then Some TypeString else None)"
  by (simp add: default_types_def default_types_fold)

text \<open>
  Claim C8. Construction fails with \<open>EmptyHeaders\<close> on an empty header list; otherwise
  with \<open>ShapeMismatch\<close> naming the first row whose width differs from the header
  count, that row's width and the expected width; otherwise it succeeds and the table
  holds exactly the given headers and rows (every header typed as a string).
\<close>

theorem NewDataFrame_shape:
  "(headers = [] \<longrightarrow> NewDataFrame headers data = Inl EmptyHeaders) \<and>
   (headers \<noteq> [] \<longrightarrow>
      (\<forall>k. k < length data \<and> length (data ! k) \<noteq> length headers \<and>
           (\<forall>j<k. length (data ! j) = length headers) \<longrightarrow>
           NewDataFrame headers data =
             Inl (ShapeMismatch k (length (data ! k)) (length headers)))) \<and>
   (headers \<noteq> [] \<and> (\<forall>row \<in> set data. length row = length headers) \<longrightarrow>
      (\<exists>df. NewDataFrame headers data = Inr df \<and> Headers df = headers \<and> Data df = data \<and>
            rect df \<and>
            (\<forall>h. Types df h = (if h \<in> set headers then Some TypeString else None))))"
proof (intro conjI impI allI)
  assume "headers = []"
  then show "NewDataFrame headers data = Inl EmptyHeaders"
    by (simp add: NewDataFrame_def)
next
  fix k
  assume ne: "headers \<noteq> []"
    and k: "k < length data \<and> length (data ! k) \<noteq> length headers \<and>
            (\<forall>j<k. length (data ! j) = length headers)"
  from k have "check_rows (length headers) 0 data =
      Some (ShapeMismatch (0 + k) (length (data ! k)) (length headers))"
    by (intro check_rows_first) auto
  with ne show "NewDataFrame headers data =
      Inl (ShapeMismatch k (length (data ! k)) (length headers))"
    by (simp add: NewDataFrame_def)
next
  assume a: "headers \<noteq> [] \<and> (\<forall>row \<in> set data. length row = length headers)"
  then have "check_rows (length headers) 0 data = None"
    by (simp add: check_rows_None)
  with a show "\<exists>df. NewDataFrame headers data = Inr df \<and> Headers df = headers \<and>
      Data df = data \<and> rect df \<and>
      (\<forall>h. Types df h = (if h \<in> set headers then Some TypeString else None))"
    by (simp add: NewDataFrame_def rect_def list_all_iff default_types_apply)
qed

theorem NewDataFrame_shape_witness:
  "NewDataFrame [] [[''Ali'']] = Inl EmptyHeaders \<and>
   NewDataFrame [''Name'', ''Age'', ''City'']
      [[''Ali'', ''30'', ''Istanbul''], [''Ayse'', ''25'']] = Inl (ShapeMismatch 1 2 3) \<and>
   (\<exists>df. NewDataFrame [''Name'', ''Age''] [[''Ali'', ''30''], [''Ayse'', ''25'']] = Inr df \<and>
         Headers df = [''Name'', ''Age''] \<and>
         Data df = [[''Ali'', ''30''], [''Ayse'', ''25'']])"
proof -
  let ?h = "[''Name'', ''Age'', ''City'']"
  let ?d = "[[''Ali'', ''30'', ''Istanbul''], [''Ayse'', ''25'']]"
  have 1: "NewDataFrame [] [[''Ali'']] = Inl EmptyHeaders"
    using NewDataFrame_shape [of "[]" "[[''Ali'']]"] by simp
  have "1 < length ?d \<and> length (?d ! 1) \<noteq> length ?h \<and> (\<forall>j<1. length (?d ! j) = length ?h)"
    by simp
  with NewDataFrame_shape [of ?h ?d]
  have "NewDataFrame ?h ?d = Inl (ShapeMismatch 1 (length (?d ! 1)) (length ?h))"
    by blast
  then have 2: "NewDataFrame ?h ?d = Inl (ShapeMismatch 1 2 3)"
    by simp
  have 3: "\<exists>df. NewDataFrame [''Name'', ''Age''] [[''Ali'', ''30''], [''Ayse'', ''25'']] = Inr df \<and>
         Headers df = [''Name'', ''Age''] \<and>
         Data df = [[''Ali'', ''30''], [''Ayse'', ''25'']]"
    using NewDataFrame_shape [of "[''Name'', ''Age'']" "[[''Ali'', ''30''], [''Ayse'', ''25'']]"]
    by auto
  from 1 2 3 show ?thesis by blast
qed

section \<open>Column lookup and the row loop\<close>

lemma index_from_notin: "0 \<le> i \<Longrightarrow> (index_from i hs c = -1) = (c \<notin> set hs)"
  by (induction hs arbitrary: i) auto

lemma index_from_found:
  "c \<in> set hs \<Longrightarrow> i \<le> index_from i hs c \<and> index_from i hs c < i + int (length hs) \<and>
     hs ! nat (index_from i hs c - i) = c \<and> (\<forall>j < nat (index_from i hs c - i). hs ! j \<noteq> c)"
proof (induction hs arbitrary: i)
  case Nil
  then show ?case by simp
next
  case (Cons h hs)
  show ?case
  proof (cases "h = c")
    case True
    then show ?thesis by simp
  next
    case False
    with Cons.prems have "c \<in> set hs" by simp
    from Cons.IH [OF this, of "i + 1"] have ih:
      "i + 1 \<le> index_from (i + 1) hs c" "index_from (i + 1) hs c < i + 1 + int (length hs)"
      "hs ! nat (index_from (i + 1) hs c - (i + 1)) = c"
      "\<forall>j < nat (index_from (i + 1) hs c - (i + 1)). hs ! j \<noteq> c"
      by auto
    define d where "d = nat (index_from (i + 1) hs c - (i + 1))"
    have e: "nat (index_from (i + 1) hs c - i) = Suc d"
      using ih(1) by (simp add: d_def)
    from False ih e show ?thesis
      by (auto simp: d_def [symmetric] nth_Cons' less_Suc_eq_0_disj)
  qed
qed

lemma getColumnIndex_absent: "(getColumnIndex df column = -1) = (column \<notin> set (Headers df))"
  by (simp add: getColumnIndex_def index_from_notin)

lemma getColumnIndex_present:
  assumes "getColumnIndex df column \<noteq> -1"
  shows "0 \<le> getColumnIndex df column" "nat (getColumnIndex df column) < length (Headers df)"
    "Headers df ! nat (getColumnIndex df column) = column"
  using assms index_from_found [of column "Headers df" 0]
  by (auto simp: getColumnIndex_def index_from_notin)

lemma for_rows_all:
  assumes "\<forall>k < length rows. body (i + k) (rows ! k) = Inr (g (rows ! k))"
  shows "for_rows body i rows = (map g rows, None)"
  using assms
proof (induction rows arbitrary: i)
  case Nil
  then show ?case by simp
next
  case (Cons row rest)
  from Cons.prems have h: "body i row = Inr (g row)" by fastforce
  have "\<forall>k < length rest. body (Suc i + k) (rest ! k) = Inr (g (rest ! k))"
    using Cons.prems by fastforce
  from Cons.IH [OF this] h show ?case by simp
qed

lemma for_rows_first:
  assumes "k < length rows" "body (i + k) (rows ! k) = Inl e"
    and "\<forall>j < k. body (i + j) (rows ! j) = Inr (g (rows ! j))"
  shows "for_rows body i rows = (map g (take k rows) @ drop k rows, Some e)"
  using assms
proof (induction rows arbitrary: i k)
  case Nil
  then show ?case by simp
next
  case (Cons row rest)
  show ?case
  proof (cases k)
    case 0
    with Cons.prems show ?thesis by simp
  next
    case (Suc m)
    from Cons.prems(3) Suc have h: "body i row = Inr (g row)" by fastforce
    have a: "m < length rest" using Cons.prems(1) Suc by simp
    have b: "body (Suc i + m) (rest ! m) = Inl e" using Cons.prems(2) Suc by simp
    have c: "\<forall>j < m. body (Suc i + j) (rest ! j) = Inr (g (rest ! j))"
      using Cons.prems(3) Suc by fastforce
    from Cons.IH [OF a b c] h Suc show ?thesis by simp
  qed
qed

section \<open>Null replacement\<close>

lemma rect_row: "rect df \<Longrightarrow> i < length (Data df) \<Longrightarrow> length (Data df ! i) = length (Headers df)"
  by (simp add: rect_def list_all_length)

text \<open>
  Claim C7, as amended. For a column of the headers of a rectangular table,
  \<^verbatim>\<open>ReplaceNulls\<close> succeeds and returns the receiver; every cell of the column that was
  the empty string is the replacement value, every other cell of the table is
  unchanged; and when the replacement value is not itself the empty string, no cell
  of the column is empty afterwards.
\<close>

theorem ReplaceNulls_cells:
  assumes col: "column \<in> set (Headers df)" and rect: "rect df"
  shows "\<exists>df'. ReplaceNulls df column v = (df', Inr df') \<and>
      Headers df' = Headers df \<and> Types df' = Types df \<and>
      length (Data df') = length (Data df) \<and>
      (\<forall>i < length (Data df). length (Data df' ! i) = length (Data df ! i) \<and>
         (\<forall>j < length (Data df ! i).
            Data df' ! i ! j =
              (if j = nat (getColumnIndex df column) \<and> Data df ! i ! j = [] then v
               else Data df ! i ! j))) \<and>
      (v \<noteq> [] \<longrightarrow>
         (\<forall>i < length (Data df). Data df' ! i ! nat (getColumnIndex df column) \<noteq> []))"
proof -
  define c where "c = nat (getColumnIndex df column)"
  define g where "g = (\<lambda>row :: string list. if row ! c = [] then row[c := v] else row)"
  from col have found: "getColumnIndex df column \<noteq> -1"
    by (simp add: getColumnIndex_absent)
  then have c: "c < length (Headers df)"
    unfolding c_def by (rule getColumnIndex_present)
  have "\<forall>k < length (Data df). ReplaceNulls_body c v (0 + k) (Data df ! k) = Inr (g (Data df ! k))"
    using c rect by (simp add: ReplaceNulls_body_def g_def rect_row)
  then have loop: "for_rows (ReplaceNulls_body c v) 0 (Data df) = (map g (Data df), None)"
    by (rule for_rows_all)
  let ?df' = "df\<lparr>Data := map g (Data df)\<rparr>"
  have res: "ReplaceNulls df column v = (?df', Inr ?df')"
    using found loop by (simp add: ReplaceNulls_def finish_def c_def Let_def)
  have cells: "\<forall>i < length (Data df). length (Data ?df' ! i) = length (Data df ! i) \<and>
         (\<forall>j < length (Data df ! i).
            Data ?df' ! i ! j = (if j = c \<and> Data df ! i ! j = [] then v else Data df ! i ! j))"
    by (simp add: g_def nth_list_update)
  have nonempty: "v \<noteq> [] \<longrightarrow> (\<forall>i < length (Data df). Data ?df' ! i ! c \<noteq> [])"
    using c rect by (simp add: g_def rect_row)
  from res cells nonempty show ?thesis
    unfolding c_def [symmetric] by (intro exI [of _ ?df']) simp
qed

lemma people_Age: "getColumnIndex people ''Age'' = 1"
  by (simp add: getColumnIndex_def people_def)

theorem ReplaceNulls_cells_witness:
  "''Age'' \<in> set (Headers people) \<and> rect people \<and>
   snd (ReplaceNulls people ''Age'' ''0'') =
     Inr (people\<lparr>Data := [[''Ali'', ''0''], [''Ayse'', ''25'']]\<rparr>)"
proof -
  have h: "''Age'' \<in> set (Headers people)" "rect people"
    by (simp_all add: people_def rect_def)
  from ReplaceNulls_cells [OF h, of "''0''"] obtain df' where
    r: "ReplaceNulls people ''Age'' ''0'' = (df', Inr df')" by blast
  have "ReplaceNulls people ''Age'' ''0'' =
      (people\<lparr>Data := [[''Ali'', ''0''], [''Ayse'', ''25'']]\<rparr>,
       Inr (people\<lparr>Data := [[''Ali'', ''0''], [''Ayse'', ''25'']]\<rparr>))"
    by (simp add: ReplaceNulls_def getColumnIndex_def people_def finish_def ReplaceNulls_body_def)
  with r h show ?thesis by simp
qed

text \<open>
  The claim as stated promises a column free of empty cells for every replacement
  value. With the empty string as the value, the empty cell of row 0 stays empty.
\<close>

theorem ReplaceNulls_empty_value_counterexample:
  "snd (ReplaceNulls people ''Age'' '''') = Inr people \<and>
   Data people ! 0 ! 1 = ''''"
  by (simp add: ReplaceNulls_def getColumnIndex_def people_def finish_def ReplaceNulls_body_def)

section \<open>Row-parallel scheduling\<close>

lemma arrival_set: "arrival n order \<Longrightarrow> set order = {0..<n}"
  unfolding arrival_def by (drule mset_eq_setD) simp

lemma arrival_length: "arrival n order \<Longrightarrow> length order = n"
  unfolding arrival_def by (drule mset_eq_length) simp

lemma arrival_distinct: "arrival n order \<Longrightarrow> distinct order"
  unfolding arrival_def by (metis distinct_upt mset_eq_imp_distinct_iff)

lemma collect_rows_length:
  "length (foldl (\<lambda>newData (index, row). newData[index := row]) init
             (map (\<lambda>j. (j, f j)) order)) = length init"
  by (induction order arbitrary: init) auto

lemma collect_rows_nth:
  "k < length init \<Longrightarrow>
   foldl (\<lambda>newData (index, row). newData[index := row]) init (map (\<lambda>j. (j, f j)) order) ! k =
     (if k \<in> set order then f k else init ! k)"
proof (induction order arbitrary: init)
  case Nil
  then show ?case by simp
next
  case (Cons j order)
  from Cons.prems have "k < length (init[j := f j])" by simp
  from Cons.IH [OF this] Cons.prems show ?case
    by (auto simp: nth_list_update)
qed

lemma collect_rows_all:
  assumes "arrival n order" "length init = n"
  shows "foldl (\<lambda>newData (index, row). newData[index := row]) init (map (\<lambda>j. (j, f j)) order) =
         map f [0..<n]"
proof (rule nth_equalityI)
  show "length (foldl (\<lambda>newData (index, row). newData[index := row]) init
                  (map (\<lambda>j. (j, f j)) order)) = length (map f [0..<n])"
    using assms(2) by (simp add: collect_rows_length)
next
  fix k
  assume "k < length (foldl (\<lambda>newData (index, row). newData[index := row]) init
                        (map (\<lambda>j. (j, f j)) order))"
  then have k: "k < n" using assms(2) by (simp add: collect_rows_length)
  then have "k \<in> set order" using arrival_set [OF assms(1)] by simp
  with k assms(2) show "foldl (\<lambda>newData (index, row). newData[index := row]) init
                          (map (\<lambda>j. (j, f j)) order) ! k = map f [0..<n] ! k"
    by (simp add: collect_rows_nth)
qed

lemma parallelizeRows_map:
  assumes "arrival (length (Data df)) order"
  shows "parallelizeRows processor order df = df\<lparr>Data := map processor (Data df)\<rparr>"
proof (cases "Data df = []")
  case True
  then show ?thesis by (simp add: parallelizeRows_def)
next
  case False
  have "map (\<lambda>j. processor (Data df ! j)) [0..<length (Data df)] = map processor (Data df)"
    by (rule nth_equalityI) simp_all
  with False collect_rows_all [OF assms, of "replicate (length (Data df)) []"
      "\<lambda>j. processor (Data df ! j)"]
  show ?thesis by (simp add: parallelizeRows_def)
qed

text \<open>
  Claim C4. Whatever the order in which the workers' results arrive,
  \<^verbatim>\<open>TrimColumnsParallel\<close> leaves the receiver as \<^verbatim>\<open>TrimColumns\<close> does: the same number of
  rows, in the same order, every cell the trimmed original cell.
\<close>

theorem TrimColumnsParallel_eq_TrimColumns:
  assumes "arrival (length (Data df)) order"
  shows "TrimColumnsParallel TrimSpace order df = TrimColumns TrimSpace df \<and>
         length (Data (TrimColumnsParallel TrimSpace order df)) = length (Data df) \<and>
         (\<forall>i < length (Data df).
            Data (TrimColumnsParallel TrimSpace order df) ! i = map TrimSpace (Data df ! i))"
proof -
  have "TrimColumnsParallel TrimSpace order df = df\<lparr>Data := map (map TrimSpace) (Data df)\<rparr>"
    unfolding TrimColumnsParallel_def using assms by (rule parallelizeRows_map)
  then show ?thesis by (simp add: TrimColumns_def)
qed

theorem TrimColumnsParallel_eq_TrimColumns_witness:
  "arrival (length (Data padded)) [1, 0] \<and>
   TrimColumnsParallel strings_TrimSpace [1, 0] padded = TrimColumns strings_TrimSpace padded \<and>
   Data (TrimColumnsParallel strings_TrimSpace [1, 0] padded) =
     [[''Ali'', ''30''], [''Ayse'', ''25'']]"
proof -
  have a: "arrival (length (Data padded)) [1, 0]"
    by (simp add: arrival_def padded_def upt_rec)
  have "Data (TrimColumns strings_TrimSpace padded) = [[''Ali'', ''30''], [''Ayse'', ''25'']]"
    by (simp add: TrimColumns_def padded_def strings_TrimSpace_def asciiSpace_def)
  with TrimColumnsParallel_eq_TrimColumns [OF a, of strings_TrimSpace] a show ?thesis
    by simp
qed

section \<open>Outlier filtering\<close>

lemma filter_loop_Inr:
  "filter_loop ParseFloat le c mn mx acc rows = Inr fd \<Longrightarrow>
   fd = acc @ filter (keep_row (\<lambda>s. s) ParseFloat le c mn mx) rows \<and>
   (\<forall>row \<in> set rows. c < length row \<and> (row ! c \<noteq> [] \<longrightarrow> ParseFloat (row ! c) \<noteq> None))"
proof (induction rows arbitrary: acc)
  case Nil
  then show ?case by simp
next
  case (Cons row rest)
  from Cons.prems have len: "c < length row"
    by (auto split: if_splits)
  show ?case
  proof (cases "row ! c = []")
    case True
    with Cons.prems len have "filter_loop ParseFloat le c mn mx (acc @ [row]) rest = Inr fd"
      by simp
    from Cons.IH [OF this] True len show ?thesis
      by (simp add: keep_row_def parseFloat_def)
  next
    case False
    with Cons.prems len obtain v where v: "ParseFloat (row ! c) = Some v"
      by (cases "ParseFloat (row ! c)") auto
    show ?thesis
    proof (cases "le mn v \<and> le v mx")
      case True
      with Cons.prems len False v
      have "filter_loop ParseFloat le c mn mx (acc @ [row]) rest = Inr fd" by simp
      from Cons.IH [OF this] True False len v show ?thesis
        by (simp add: keep_row_def parseFloat_def)
    next
      case out: False
      with Cons.prems len False v
      have "filter_loop ParseFloat le c mn mx acc rest = Inr fd" by auto
      from Cons.IH [OF this] out False len v show ?thesis
        by (auto simp: keep_row_def parseFloat_def)
    qed
  qed
qed

lemma filter_loop_fails:
  assumes "\<forall>row \<in> set rows. c < length row"
    and "\<exists>row \<in> set rows. row ! c \<noteq> [] \<and> ParseFloat (row ! c) = None"
  shows "\<exists>s. filter_loop ParseFloat le c mn mx acc rows = Inl (ConversionError s) \<and>
             ParseFloat s = None"
  using assms
proof (induction rows arbitrary: acc)
  case Nil
  then show ?case by simp
next
  case (Cons row rest)
  show ?case
  proof (cases "row ! c \<noteq> [] \<and> ParseFloat (row ! c) = None")
    case True
    with Cons.prems(1) show ?thesis by simp
  next
    case False
    with Cons.prems have rest: "\<forall>row \<in> set rest. c < length row"
      "\<exists>row \<in> set rest. row ! c \<noteq> [] \<and> ParseFloat (row ! c) = None"
      by auto
    from False Cons.prems(1) Cons.IH [OF rest] show ?thesis
      by (cases "ParseFloat (row ! c)") auto
  qed
qed

lemma keep_fold:
  "foldl (\<lambda>filteredData (index, keep). if keep then filteredData @ [rows ! index] else filteredData)
     acc (map (\<lambda>i. (i, K (rows ! i))) order) =
   acc @ map ((!) rows) (filter (\<lambda>i. K (rows ! i)) order)"
  by (induction order arbitrary: acc) auto

lemma FilterOutliersParallel_result:
  assumes "column \<in> set (Headers df)" "rect df"
  shows "FilterOutliersParallel TrimSpace ParseFloat le order df column mn mx =
     (df, Inr \<lparr>Headers = Headers df,
               Data = map ((!) (Data df))
                        (filter (\<lambda>i. keep_row TrimSpace ParseFloat le
                                        (nat (getColumnIndex df column)) mn mx (Data df ! i))
                           order),
               Types = Types df\<rparr>)"
proof -
  from assms(1) have found: "getColumnIndex df column \<noteq> -1"
    by (simp add: getColumnIndex_absent)
  then have "nat (getColumnIndex df column) < length (Headers df)"
    by (rule getColumnIndex_present)
  with assms(2) have "list_all (\<lambda>row. nat (getColumnIndex df column) < length row) (Data df)"
    by (simp add: rect_def list_all_iff)
  with found show ?thesis
    by (simp add: FilterOutliersParallel_def Let_def keep_fold)
qed

lemma filter_by_index:
  "map ((!) rows) (filter (\<lambda>i. P (rows ! i)) [0..<length rows]) = filter P rows"
proof -
  have "filter P (map ((!) rows) [0..<length rows]) =
        map ((!) rows) (filter (P \<circ> (!) rows) [0..<length rows])"
    by (rule filter_map)
  then show ?thesis by (simp add: map_nth comp_def)
qed

lemma kept_rows_mset:
  assumes "arrival (length rows) order"
  shows "mset (map ((!) rows) (filter (\<lambda>i. P (rows ! i)) order)) = mset (filter P rows)"
proof -
  have "mset (map ((!) rows) (filter (\<lambda>i. P (rows ! i)) order)) =
        image_mset ((!) rows) (filter_mset (\<lambda>i. P (rows ! i)) (mset order))"
    by simp
  also have "\<dots> = image_mset ((!) rows) (filter_mset (\<lambda>i. P (rows ! i)) (mset [0..<length rows]))"
    using assms by (simp add: arrival_def)
  also have "\<dots> = mset (map ((!) rows) (filter (\<lambda>i. P (rows ! i)) [0..<length rows]))"
    by simp
  finally show ?thesis by (simp add: filter_by_index)
qed

text \<open>
  Claim C1, as amended. \<^verbatim>\<open>FilterOutliersParallel\<close> has no conversion failure: its only
  error is the missing column. On a rectangular table with the column, the call
  succeeds for every arrival order, and every row whose cell is not empty and does not
  parse as a float (after trimming) is among the rows of the result.
\<close>

theorem FilterOutliersParallel_keeps_unparsed:
  "(column \<notin> set (Headers df) \<longrightarrow>
      FilterOutliersParallel TrimSpace ParseFloat le order df column mn mx =
        (df, Inl (ColumnNotFound column))) \<and>
   (column \<in> set (Headers df) \<and> rect df \<and> arrival (length (Data df)) order \<longrightarrow>
      (\<exists>res. FilterOutliersParallel TrimSpace ParseFloat le order df column mn mx =
               (df, Inr res) \<and>
             (\<forall>i < length (Data df).
                Data df ! i ! nat (getColumnIndex df column) \<noteq> [] \<and>
                parseFloat TrimSpace ParseFloat (Data df ! i ! nat (getColumnIndex df column)) = None
                \<longrightarrow> Data df ! i \<in> set (Data res))))"
proof (intro conjI impI)
  assume "column \<notin> set (Headers df)"
  then have "getColumnIndex df column = -1"
    by (simp add: getColumnIndex_absent)
  then show "FilterOutliersParallel TrimSpace ParseFloat le order df column mn mx =
      (df, Inl (ColumnNotFound column))"
    by (simp add: FilterOutliersParallel_def)
next
  assume a: "column \<in> set (Headers df) \<and> rect df \<and> arrival (length (Data df)) order"
  define c where "c = nat (getColumnIndex df column)"
  define K where "K = keep_row TrimSpace ParseFloat le c mn mx"
  let ?res = "\<lparr>Headers = Headers df,
               Data = map ((!) (Data df)) (filter (\<lambda>i. K (Data df ! i)) order),
               Types = Types df\<rparr>"
  from a have res: "FilterOutliersParallel TrimSpace ParseFloat le order df column mn mx =
      (df, Inr ?res)"
    unfolding K_def c_def by (intro FilterOutliersParallel_result) auto
  have "Data df ! i \<in> set (Data ?res)"
    if i: "i < length (Data df)"
      and cell: "Data df ! i ! c \<noteq> [] \<and> parseFloat TrimSpace ParseFloat (Data df ! i ! c) = None"
    for i
  proof -
    from cell have "K (Data df ! i)"
      by (simp add: K_def keep_row_def)
    moreover from a have "set order = {0..<length (Data df)}"
      by (intro arrival_set) simp
    with i have "i \<in> set order" by simp
    ultimately show ?thesis by auto
  qed
  with res show "\<exists>res. FilterOutliersParallel TrimSpace ParseFloat le order df column mn mx =
               (df, Inr res) \<and>
             (\<forall>i < length (Data df).
                Data df ! i ! nat (getColumnIndex df column) \<noteq> [] \<and>
                parseFloat TrimSpace ParseFloat (Data df ! i ! nat (getColumnIndex df column)) = None
                \<longrightarrow> Data df ! i \<in> set (Data res))"
    unfolding c_def by blast
qed

lemma salaries_facts:
  "''Salary'' \<in> set (Headers salaries)" "rect salaries" "length (Data salaries) = 3"
  "getColumnIndex salaries ''Salary'' = 1" "Data salaries ! 2 = [''Bad'', ''abc'']"
  by (simp_all add: salaries_def rect_def getColumnIndex_def)

theorem FilterOutliersParallel_keeps_unparsed_witness:
  "''Salary'' \<in> set (Headers salaries) \<and> rect salaries \<and>
   arrival (length (Data salaries)) [2, 0, 1] \<and>
   (\<exists>res. FilterOutliersParallel strings_TrimSpace strconv_ParseFloat float_le [2, 0, 1]
            salaries ''Salary'' 2000 10000 = (salaries, Inr res) \<and>
          [''Bad'', ''abc''] \<in> set (Data res))"
proof -
  have a: "arrival (length (Data salaries)) [2, 0, 1]"
    by (simp add: salaries_facts arrival_def upt_rec)
  have p: "parseFloat strings_TrimSpace strconv_ParseFloat ''abc'' = None"
    by code_simp
  from FilterOutliersParallel_keeps_unparsed
    [of "''Salary''" salaries strings_TrimSpace strconv_ParseFloat float_le "[2, 0, 1]" 2000 10000]
    a salaries_facts
  obtain res where res: "FilterOutliersParallel strings_TrimSpace strconv_ParseFloat float_le
      [2, 0, 1] salaries ''Salary'' 2000 10000 = (salaries, Inr res)"
    and kept: "\<forall>i < 3. Data salaries ! i ! 1 \<noteq> [] \<and>
        parseFloat strings_TrimSpace strconv_ParseFloat (Data salaries ! i ! 1) = None
        \<longrightarrow> Data salaries ! i \<in> set (Data res)"
    by auto
  from kept [rule_format, of 2] p have "[''Bad'', ''abc''] \<in> set (Data res)"
    by (simp add: salaries_facts)
  with a res salaries_facts show ?thesis by blast
qed

text \<open>
  The claim as stated has the call fail when a cell does not parse. Here the cell
  \<open>''abc''\<close> of row 2 does not parse as a float, and the call, with the results arriving
  in row order, succeeds and returns that row with the in-range row.
\<close>

theorem FilterOutliersParallel_no_failure_counterexample:
  "strconv_ParseFloat ''abc'' = None \<and>
   map_sum id Data (snd (FilterOutliersParallel strings_TrimSpace strconv_ParseFloat float_le
       [0, 1, 2] salaries ''Salary'' 2000 10000)) =
     Inr [[''Ali'', ''5000''], [''Bad'', ''abc'']]"
  by code_simp

lemma FilterOutliers_Inr:
  assumes "snd (FilterOutliers ParseFloat le df column mn mx) = Inr seq"
  shows "getColumnIndex df column \<noteq> -1"
    and "FilterOutliers ParseFloat le df column mn mx = (seq, Inr seq)"
    and "seq = df\<lparr>Data := filter (keep_row (\<lambda>s. s) ParseFloat le
                                  (nat (getColumnIndex df column)) mn mx) (Data df)\<rparr>"
    and "\<forall>row \<in> set (Data df). nat (getColumnIndex df column) < length row \<and>
           (row ! nat (getColumnIndex df column) \<noteq> [] \<longrightarrow>
            ParseFloat (row ! nat (getColumnIndex df column)) \<noteq> None)"
proof -
  show found: "getColumnIndex df column \<noteq> -1"
    using assms by (auto simp: FilterOutliers_def)
  with assms obtain fd where
    loop: "filter_loop ParseFloat le (nat (getColumnIndex df column)) mn mx [] (Data df) = Inr fd"
    and seq: "seq = df\<lparr>Data := fd\<rparr>"
    by (auto simp: FilterOutliers_def Let_def split: sum.splits)
  from filter_loop_Inr [OF loop] seq
  show "seq = df\<lparr>Data := filter (keep_row (\<lambda>s. s) ParseFloat le
                                  (nat (getColumnIndex df column)) mn mx) (Data df)\<rparr>"
    and "\<forall>row \<in> set (Data df). nat (getColumnIndex df column) < length row \<and>
           (row ! nat (getColumnIndex df column) \<noteq> [] \<longrightarrow>
            ParseFloat (row ! nat (getColumnIndex df column)) \<noteq> None)"
    by simp_all
  from found loop seq show "FilterOutliers ParseFloat le df column mn mx = (seq, Inr seq)"
    by (simp add: FilterOutliers_def)
qed

text \<open>
  Claim C5, as amended. When sequential \<^verbatim>\<open>FilterOutliers\<close> succeeds on a rectangular
  table, \<^verbatim>\<open>FilterOutliersParallel\<close> succeeds on the same input for every arrival order,
  and its rows are the rows of the sequential result as a set (and as a multiset; the
  order may differ). The parallel worker trims the cell before parsing it; the
  hypothesis on the cells says that trimming does not change a cell that parses, which
  holds of Go's \<^verbatim>\<open>strconv.ParseFloat\<close>, as it accepts no white space.
\<close>

theorem FilterOutliers_same_rows:
  assumes col: "column \<in> set (Headers df)" and rect: "rect df"
    and arr: "arrival (length (Data df)) order"
    and trim: "\<forall>row \<in> set (Data df).
        ParseFloat (row ! nat (getColumnIndex df column)) \<noteq> None \<longrightarrow>
        TrimSpace (row ! nat (getColumnIndex df column)) = row ! nat (getColumnIndex df column)"
    and seq: "snd (FilterOutliers ParseFloat le df column mn mx) = Inr seq"
  shows "\<exists>par. snd (FilterOutliersParallel TrimSpace ParseFloat le order df column mn mx) = Inr par \<and>
           set (Data par) = set (Data seq) \<and> mset (Data par) = mset (Data seq) \<and>
           Headers par = Headers seq"
proof -
  define c where "c = nat (getColumnIndex df column)"
  let ?K = "keep_row TrimSpace ParseFloat le c mn mx"
  let ?par = "\<lparr>Headers = Headers df,
               Data = map ((!) (Data df)) (filter (\<lambda>i. ?K (Data df ! i)) order),
               Types = Types df\<rparr>"
  have par: "FilterOutliersParallel TrimSpace ParseFloat le order df column mn mx = (df, Inr ?par)"
    unfolding c_def using col rect by (rule FilterOutliersParallel_result)
  note s = FilterOutliers_Inr [OF seq, folded c_def]
  have same: "?K row = keep_row (\<lambda>s. s) ParseFloat le c mn mx row" if "row \<in> set (Data df)" for row
  proof (cases "row ! c = []")
    case True
    then show ?thesis by (simp add: keep_row_def)
  next
    case False
    with s(4) that have "ParseFloat (row ! c) \<noteq> None" by blast
    with trim that have "TrimSpace (row ! c) = row ! c" by (simp add: c_def)
    then show ?thesis by (simp add: keep_row_def parseFloat_def)
  qed
  have "mset (Data ?par) = mset (filter ?K (Data df))"
    using kept_rows_mset [OF arr, of ?K] by (simp del: mset_map mset_filter)
  also have "filter ?K (Data df) = filter (keep_row (\<lambda>s. s) ParseFloat le c mn mx) (Data df)"
    by (rule filter_cong) (simp_all add: same)
  finally have m: "mset (Data ?par) = mset (Data seq)"
    using s(3) by simp
  then have "set (Data ?par) = set (Data seq)"
    by (rule mset_eq_setD)
  with m par s(3) show ?thesis by simp
qed

lemma payroll_facts:
  "''Salary'' \<in> set (Headers payroll)" "rect payroll" "length (Data payroll) = 5"
  "getColumnIndex payroll ''Salary'' = 2"
  by (simp_all add: payroll_def rect_def getColumnIndex_def)

lemma payroll_filtered:
  "filter_loop strconv_ParseFloat float_le 2 2000 10000 [] (Data payroll) =
     Inr [[''Ali'', ''30'', ''5000''], [''Ayse'', ''25'', ''4500''],
          [''Zeynep'', ''35'', ''6000'']]"
  by code_simp

theorem FilterOutliers_same_rows_witness:
  "''Salary'' \<in> set (Headers payroll) \<and> rect payroll \<and>
   arrival (length (Data payroll)) [3, 0, 4, 1, 2] \<and>
   (\<exists>seq. snd (FilterOutliers strconv_ParseFloat float_le payroll ''Salary'' 2000 10000) = Inr seq \<and>
      Data seq = [[''Ali'', ''30'', ''5000''], [''Ayse'', ''25'', ''4500''],
                  [''Zeynep'', ''35'', ''6000'']]) \<and>
   (\<exists>par. snd (FilterOutliersParallel strings_TrimSpace strconv_ParseFloat float_le
              [3, 0, 4, 1, 2] payroll ''Salary'' 2000 10000) = Inr par \<and>
      set (Data par) = {[''Ali'', ''30'', ''5000''], [''Ayse'', ''25'', ''4500''],
                        [''Zeynep'', ''35'', ''6000'']})"
proof -
  let ?kept = "[[''Ali'', ''30'', ''5000''], [''Ayse'', ''25'', ''4500''],
                [''Zeynep'', ''35'', ''6000'']]"
  have a: "arrival (length (Data payroll)) [3, 0, 4, 1, 2]"
    unfolding payroll_facts by code_simp
  have t: "\<forall>row \<in> set (Data payroll).
      strconv_ParseFloat (row ! nat (getColumnIndex payroll ''Salary'')) \<noteq> None \<longrightarrow>
      strings_TrimSpace (row ! nat (getColumnIndex payroll ''Salary'')) =
        row ! nat (getColumnIndex payroll ''Salary'')"
    unfolding payroll_facts by code_simp
  have s: "snd (FilterOutliers strconv_ParseFloat float_le payroll ''Salary'' 2000 10000) =
      Inr (payroll\<lparr>Data := ?kept\<rparr>)"
    by (simp add: FilterOutliers_def payroll_facts payroll_filtered)
  from FilterOutliers_same_rows [OF payroll_facts(1,2) a t s]
  obtain par where "snd (FilterOutliersParallel strings_TrimSpace strconv_ParseFloat float_le
              [3, 0, 4, 1, 2] payroll ''Salary'' 2000 10000) = Inr par"
    and "set (Data par) = set ?kept"
    by auto
  with a s payroll_facts show ?thesis by auto
qed

text \<open>
  The claim as stated compares the two row sets on every input. On this table the
  sequential filter keeps row 0, drops row 1 and aborts on row 2 with a conversion
  error, leaving the receiver's three rows as they were; the parallel filter succeeds
  with rows 0 and 2.
\<close>

theorem FilterOutliers_same_rows_counterexample:
  "map_sum id Data (snd (FilterOutliers strconv_ParseFloat float_le salaries ''Salary'' 2000 10000)) =
     Inl (ConversionError ''abc'') \<and>
   Data (fst (FilterOutliers strconv_ParseFloat float_le salaries ''Salary'' 2000 10000)) =
     [[''Ali'', ''5000''], [''Can'', ''1000''], [''Bad'', ''abc'']] \<and>
   map_sum id Data (snd (FilterOutliersParallel strings_TrimSpace strconv_ParseFloat float_le
       [0, 1, 2] salaries ''Salary'' 2000 10000)) =
     Inr [[''Ali'', ''5000''], [''Bad'', ''abc'']]"
  by code_simp

text \<open>
  Claim C10. \<^verbatim>\<open>FilterOutliersParallel\<close> leaves the receiver exactly as it was (headers,
  every row and cell, type map), whatever it returns. With the column present, on a
  rectangular table, it returns a new table with the receiver's headers and type map
  whose rows are the kept rows, in the order the results arrived. Sequential
  \<^verbatim>\<open>FilterOutliers\<close>, when it succeeds, returns the receiver itself, its rows replaced by
  the kept rows.
\<close>

theorem FilterOutliersParallel_frame:
  "fst (FilterOutliersParallel TrimSpace ParseFloat le order df column mn mx) = df \<and>
   (column \<in> set (Headers df) \<and> rect df \<and> arrival (length (Data df)) order \<longrightarrow>
      (\<exists>res. snd (FilterOutliersParallel TrimSpace ParseFloat le order df column mn mx) = Inr res \<and>
         Headers res = Headers df \<and> Types res = Types df \<and>
         Data res = map ((!) (Data df))
                      (filter (\<lambda>i. keep_row TrimSpace ParseFloat le
                                      (nat (getColumnIndex df column)) mn mx (Data df ! i)) order) \<and>
         mset (Data res) = mset (filter (keep_row TrimSpace ParseFloat le
                                           (nat (getColumnIndex df column)) mn mx) (Data df)))) \<and>
   (\<forall>seq. snd (FilterOutliers ParseFloat le df column mn mx) = Inr seq \<longrightarrow>
      fst (FilterOutliers ParseFloat le df column mn mx) = seq \<and>
      Headers seq = Headers df \<and>
      Data seq = filter (keep_row (\<lambda>s. s) ParseFloat le (nat (getColumnIndex df column)) mn mx)
                   (Data df))"
proof (intro conjI impI allI)
  show "fst (FilterOutliersParallel TrimSpace ParseFloat le order df column mn mx) = df"
    by (simp add: FilterOutliersParallel_def Let_def)
next
  assume a: "column \<in> set (Headers df) \<and> rect df \<and> arrival (length (Data df)) order"
  then have "FilterOutliersParallel TrimSpace ParseFloat le order df column mn mx =
     (df, Inr \<lparr>Headers = Headers df,
               Data = map ((!) (Data df))
                        (filter (\<lambda>i. keep_row TrimSpace ParseFloat le
                                        (nat (getColumnIndex df column)) mn mx (Data df ! i))
                           order),
               Types = Types df\<rparr>)"
    by (intro FilterOutliersParallel_result) auto
  moreover from a have "mset (map ((!) (Data df))
                        (filter (\<lambda>i. keep_row TrimSpace ParseFloat le
                                        (nat (getColumnIndex df column)) mn mx (Data df ! i))
                           order)) =
      mset (filter (keep_row TrimSpace ParseFloat le (nat (getColumnIndex df column)) mn mx)
              (Data df))"
    by (intro kept_rows_mset) auto
  ultimately show "\<exists>res. snd (FilterOutliersParallel TrimSpace ParseFloat le order df column mn mx) = Inr res \<and>
         Headers res = Headers df \<and> Types res = Types df \<and>
         Data res = map ((!) (Data df))
                      (filter (\<lambda>i. keep_row TrimSpace ParseFloat le
                                      (nat (getColumnIndex df column)) mn mx (Data df ! i)) order) \<and>
         mset (Data res) = mset (filter (keep_row TrimSpace ParseFloat le
                                           (nat (getColumnIndex df column)) mn mx) (Data df))"
    by simp
next
  fix seq
  assume s: "snd (FilterOutliers ParseFloat le df column mn mx) = Inr seq"
  from FilterOutliers_Inr(2) [OF s]
  show "fst (FilterOutliers ParseFloat le df column mn mx) = seq" by simp
  from FilterOutliers_Inr(3) [OF s]
  show "Headers seq = Headers df"
    and "Data seq = filter (keep_row (\<lambda>s. s) ParseFloat le (nat (getColumnIndex df column)) mn mx)
                   (Data df)"
    by simp_all
qed

theorem FilterOutliersParallel_frame_witness:
  "''Salary'' \<in> set (Headers payroll) \<and> rect payroll \<and>
   arrival (length (Data payroll)) [4, 3, 2, 1, 0] \<and>
   fst (FilterOutliersParallel strings_TrimSpace strconv_ParseFloat float_le [4, 3, 2, 1, 0]
          payroll ''Salary'' 2000 10000) = payroll \<and>
   (\<exists>res. snd (FilterOutliersParallel strings_TrimSpace strconv_ParseFloat float_le
              [4, 3, 2, 1, 0] payroll ''Salary'' 2000 10000) = Inr res \<and>
      Headers res = Headers payroll \<and>
      Data res = [[''Zeynep'', ''35'', ''6000''], [''Ayse'', ''25'', ''4500''],
                  [''Ali'', ''30'', ''5000'']]) \<and>
   Data (fst (FilterOutliers strconv_ParseFloat float_le payroll ''Salary'' 2000 10000)) =
     [[''Ali'', ''30'', ''5000''], [''Ayse'', ''25'', ''4500''], [''Zeynep'', ''35'', ''6000'']]"
proof -
  note inst = FilterOutliersParallel_frame
    [of strings_TrimSpace strconv_ParseFloat float_le "[4, 3, 2, 1, 0]" payroll "''Salary''"
        2000 10000]
  have a: "arrival (length (Data payroll)) [4, 3, 2, 1, 0]"
    unfolding payroll_facts by code_simp
  have k: "map ((!) (Data payroll))
             (filter (\<lambda>i. keep_row strings_TrimSpace strconv_ParseFloat float_le 2 2000 10000
                             (Data payroll ! i)) [4, 3, 2, 1, 0]) =
           [[''Zeynep'', ''35'', ''6000''], [''Ayse'', ''25'', ''4500''],
            [''Ali'', ''30'', ''5000'']]"
    by code_simp
  have s: "snd (FilterOutliers strconv_ParseFloat float_le payroll ''Salary'' 2000 10000) =
      Inr (payroll\<lparr>Data := [[''Ali'', ''30'', ''5000''], [''Ayse'', ''25'', ''4500''],
                             [''Zeynep'', ''35'', ''6000'']]\<rparr>)"
    by (simp add: FilterOutliers_def payroll_facts payroll_filtered)
  from inst have 1: "fst (FilterOutliersParallel strings_TrimSpace strconv_ParseFloat float_le
      [4, 3, 2, 1, 0] payroll ''Salary'' 2000 10000) = payroll"
    by blast
  from inst a payroll_facts k have 2: "\<exists>res. snd (FilterOutliersParallel strings_TrimSpace
      strconv_ParseFloat float_le [4, 3, 2, 1, 0] payroll ''Salary'' 2000 10000) = Inr res \<and>
      Headers res = Headers payroll \<and>
      Data res = [[''Zeynep'', ''35'', ''6000''], [''Ayse'', ''25'', ''4500''],
                  [''Ali'', ''30'', ''5000'']]"
    by auto
  from inst s have 3: "Data (fst (FilterOutliers strconv_ParseFloat float_le payroll ''Salary''
      2000 10000)) =
     [[''Ali'', ''30'', ''5000''], [''Ayse'', ''25'', ''4500''], [''Zeynep'', ''35'', ''6000'']]"
    by auto
  from a payroll_facts 1 2 3 show ?thesis by blast
qed

section \<open>Date cleaning\<close>

lemma try_formats_None:
  "(try_formats Parse formats s = None) = (\<forall>format \<in> set formats. Parse format s = None)"
  by (induction formats) (auto split: option.splits)

lemma try_formats_first:
  assumes "k < length formats" "Parse (formats ! k) s = Some t"
    and "\<forall>j < k. Parse (formats ! j) s = None"
  shows "try_formats Parse formats s = Some t"
  using assms
proof (induction formats arbitrary: k)
  case Nil
  then show ?case by simp
next
  case (Cons format rest)
  show ?case
  proof (cases k)
    case 0
    with Cons.prems show ?thesis by simp
  next
    case (Suc m)
    from Cons.prems(3) Suc have "Parse format s = None" by auto
    moreover have "try_formats Parse rest s = Some t"
      using Cons.prems Suc by (intro Cons.IH [of m]) auto
    ultimately show ?thesis by simp
  qed
qed

lemma try_formats_Some:
  "try_formats Parse formats s = Some t \<Longrightarrow>
   \<exists>k < length formats. Parse (formats ! k) s = Some t \<and> (\<forall>j < k. Parse (formats ! j) s = None)"
proof (induction formats)
  case Nil
  then show ?case by simp
next
  case (Cons format rest)
  show ?case
  proof (cases "Parse format s")
    case (Some u)
    with Cons.prems have "Parse ((format # rest) ! 0) s = Some t" by simp
    then show ?thesis by (intro exI [of _ 0]) simp
  next
    case None
    with Cons.prems have "try_formats Parse rest s = Some t" by simp
    from Cons.IH [OF this] obtain k where k: "k < length rest" "Parse (rest ! k) s = Some t"
      "\<forall>j < k. Parse (rest ! j) s = None" by blast
    with None show ?thesis
      by (intro exI [of _ "Suc k"]) (auto simp: less_Suc_eq_0_disj)
  qed
qed

lemma parseDate_layout_first:
  "Parse layout s = Some t \<Longrightarrow> parseDate Parse s layout = Some t"
  by (simp add: parseDate_def parseDate_formats_def)

lemma parseDate_None_CleanDates_formats:
  "parseDate Parse s layout = None \<Longrightarrow> try_formats Parse CleanDates_formats s = None"
  unfolding parseDate_def try_formats_None
  by (simp add: parseDate_formats_def CleanDates_formats_def)

lemma CleanDates_body_eq:
  "CleanDates_body Parse Format c column layout i row =
     (if \<not> c < length row then Inl IndexOutOfRange
      else if row ! c = [] then Inr row
      else case try_formats Parse CleanDates_formats (row ! c) of
             Some t \<Rightarrow> Inr (row[c := Format t layout])
           | None \<Rightarrow> Inl (DateParseFailure i column (row ! c)))"
  by (simp add: CleanDates_body_def CleanDates_formats_def split: option.splits)

lemma CleanDates_ok:
  assumes col: "column \<in> set (Headers df)" and rect: "rect df"
    and ok: "\<forall>row \<in> set (Data df). row ! nat (getColumnIndex df column) \<noteq> [] \<longrightarrow>
               try_formats Parse CleanDates_formats (row ! nat (getColumnIndex df column)) \<noteq> None"
  shows "CleanDates Parse Format df column layout =
     (df\<lparr>Data := map (\<lambda>row. if row ! nat (getColumnIndex df column) = [] then row
                            else row[nat (getColumnIndex df column) :=
                              Format (the (try_formats Parse CleanDates_formats
                                             (row ! nat (getColumnIndex df column)))) layout])
                     (Data df),
          Types := (Types df)(column \<mapsto> TypeDate)\<rparr>,
      Inr (df\<lparr>Data := map (\<lambda>row. if row ! nat (getColumnIndex df column) = [] then row
                            else row[nat (getColumnIndex df column) :=
                              Format (the (try_formats Parse CleanDates_formats
                                             (row ! nat (getColumnIndex df column)))) layout])
                     (Data df),
          Types := (Types df)(column \<mapsto> TypeDate)\<rparr>))"
proof -
  define c where "c = nat (getColumnIndex df column)"
  define g where "g = (\<lambda>row :: string list. if row ! c = [] then row
      else row[c := Format (the (try_formats Parse CleanDates_formats (row ! c))) layout])"
  from col have found: "getColumnIndex df column \<noteq> -1"
    by (simp add: getColumnIndex_absent)
  then have c: "c < length (Headers df)"
    unfolding c_def by (rule getColumnIndex_present)
  have "\<forall>k < length (Data df).
      CleanDates_body Parse Format c column layout (0 + k) (Data df ! k) = Inr (g (Data df ! k))"
    using c rect ok [folded c_def]
    by (auto simp: CleanDates_body_eq g_def rect_row split: option.splits)
  then have "for_rows (CleanDates_body Parse Format c column layout) 0 (Data df) =
      (map g (Data df), None)"
    by (rule for_rows_all)
  with found show ?thesis
    unfolding c_def [symmetric] g_def [symmetric]
    by (simp add: CleanDates_def c_def Let_def)
qed

lemma CleanDates_fail:
  assumes col: "column \<in> set (Headers df)" and rect: "rect df"
    and k: "k < length (Data df)"
    and bad: "Data df ! k ! nat (getColumnIndex df column) \<noteq> []"
      "try_formats Parse CleanDates_formats (Data df ! k ! nat (getColumnIndex df column)) = None"
    and first: "\<forall>j < k. Data df ! j ! nat (getColumnIndex df column) \<noteq> [] \<longrightarrow>
        try_formats Parse CleanDates_formats (Data df ! j ! nat (getColumnIndex df column)) \<noteq> None"
  shows "CleanDates Parse Format df column layout =
     (df\<lparr>Data := map (\<lambda>row. if row ! nat (getColumnIndex df column) = [] then row
                            else row[nat (getColumnIndex df column) :=
                              Format (the (try_formats Parse CleanDates_formats
                                             (row ! nat (getColumnIndex df column)))) layout])
                     (take k (Data df)) @ drop k (Data df)\<rparr>,
      Inl (DateParseFailure k column (Data df ! k ! nat (getColumnIndex df column))))"
proof -
  define c where "c = nat (getColumnIndex df column)"
  define g where "g = (\<lambda>row :: string list. if row ! c = [] then row
      else row[c := Format (the (try_formats Parse CleanDates_formats (row ! c))) layout])"
  from col have found: "getColumnIndex df column \<noteq> -1"
    by (simp add: getColumnIndex_absent)
  then have c: "c < length (Headers df)"
    unfolding c_def by (rule getColumnIndex_present)
  have fail: "CleanDates_body Parse Format c column layout (0 + k) (Data df ! k) =
      Inl (DateParseFailure k column (Data df ! k ! c))"
    using c rect k bad [folded c_def] by (simp add: CleanDates_body_eq rect_row)
  have before: "\<forall>j < k.
      CleanDates_body Parse Format c column layout (0 + j) (Data df ! j) = Inr (g (Data df ! j))"
    using c rect k first [folded c_def]
    by (auto simp: CleanDates_body_eq g_def rect_row split: option.splits)
  from for_rows_first [OF k fail before] found show ?thesis
    unfolding c_def [symmetric] g_def [symmetric]
    by (simp add: CleanDates_def c_def Let_def)
qed

text \<open>
  Claim C2, as amended. On a rectangular table with the column, sequential
  \<^verbatim>\<open>CleanDates\<close> leaves an empty cell alone and parses a non-empty cell against the fixed
  ordered list \<open>CleanDates_formats\<close> (RFC 3339, then \<^verbatim>\<open>2006-01-02\<close>, \<^verbatim>\<open>02/01/2006\<close>,
  \<^verbatim>\<open>01/02/2006\<close>): the first layout of the list that parses the cell wins, and the cell
  is rewritten to that time formatted with the caller's layout. The caller's layout is
  not tried for parsing. When every non-empty cell parses, the call succeeds and tags
  the column as a date.
\<close>

theorem CleanDates_layout_order:
  assumes col: "column \<in> set (Headers df)" and rect: "rect df"
    and ok: "\<forall>row \<in> set (Data df). row ! nat (getColumnIndex df column) \<noteq> [] \<longrightarrow>
               try_formats Parse CleanDates_formats (row ! nat (getColumnIndex df column)) \<noteq> None"
  shows "\<exists>df'. CleanDates Parse Format df column layout = (df', Inr df') \<and>
      Headers df' = Headers df \<and> Types df' = (Types df)(column \<mapsto> TypeDate) \<and>
      length (Data df') = length (Data df) \<and>
      (\<forall>i < length (Data df).
         (Data df ! i ! nat (getColumnIndex df column) = [] \<longrightarrow> Data df' ! i = Data df ! i) \<and>
         (\<forall>k t. Data df ! i ! nat (getColumnIndex df column) \<noteq> [] \<and>
                k < length CleanDates_formats \<and>
                Parse (CleanDates_formats ! k) (Data df ! i ! nat (getColumnIndex df column)) = Some t \<and>
                (\<forall>j < k. Parse (CleanDates_formats ! j)
                            (Data df ! i ! nat (getColumnIndex df column)) = None)
                \<longrightarrow> Data df' ! i =
                      (Data df ! i)[nat (getColumnIndex df column) := Format t layout]))"
proof -
  define c where "c = nat (getColumnIndex df column)"
  define g where "g = (\<lambda>row :: string list. if row ! c = [] then row
      else row[c := Format (the (try_formats Parse CleanDates_formats (row ! c))) layout])"
  let ?df' = "df\<lparr>Data := map g (Data df), Types := (Types df)(column \<mapsto> TypeDate)\<rparr>"
  have res: "CleanDates Parse Format df column layout = (?df', Inr ?df')"
    using CleanDates_ok [OF col rect ok, of Format layout]
    unfolding c_def [symmetric] g_def [symmetric] .
  have rows: "(Data df ! i ! c = [] \<longrightarrow> Data ?df' ! i = Data df ! i) \<and>
         (\<forall>k t. Data df ! i ! c \<noteq> [] \<and> k < length CleanDates_formats \<and>
                Parse (CleanDates_formats ! k) (Data df ! i ! c) = Some t \<and>
                (\<forall>j < k. Parse (CleanDates_formats ! j) (Data df ! i ! c) = None)
                \<longrightarrow> Data ?df' ! i = (Data df ! i)[c := Format t layout])"
    if i: "i < length (Data df)" for i
  proof (intro conjI impI allI)
    assume "Data df ! i ! c = []"
    with i show "Data ?df' ! i = Data df ! i" by (simp add: g_def)
  next
    fix k t
    assume h: "Data df ! i ! c \<noteq> [] \<and> k < length CleanDates_formats \<and>
        Parse (CleanDates_formats ! k) (Data df ! i ! c) = Some t \<and>
        (\<forall>j < k. Parse (CleanDates_formats ! j) (Data df ! i ! c) = None)"
    then have "try_formats Parse CleanDates_formats (Data df ! i ! c) = Some t"
      by (intro try_formats_first [of k]) auto
    with h i show "Data ?df' ! i = (Data df ! i)[c := Format t layout]"
      by (simp add: g_def)
  qed
  from res rows show ?thesis
    unfolding c_def [symmetric] by (intro exI [of _ ?df']) (simp; blast)
qed

lemma birthdays_facts:
  "''BirthDate'' \<in> set (Headers birthdays)" "rect birthdays" "length (Data birthdays) = 4"
  "getColumnIndex birthdays ''BirthDate'' = 1"
  by (simp_all add: birthdays_def rect_def getColumnIndex_def)

theorem CleanDates_layout_order_witness:
  "''BirthDate'' \<in> set (Headers birthdays) \<and> rect birthdays \<and>
   (\<exists>df'. CleanDates time_Parse time_Format birthdays ''BirthDate'' ''02.01.2006'' = (df', Inr df') \<and>
      Types df' ''BirthDate'' = Some TypeDate \<and>
      Data df' = [[''Ali'', ''15.01.1990''], [''Ayse'', ''20.05.1995''], [''Veli'', ''''],
                  [''Zeynep'', ''01.03.1985'']])"
proof -
  have ok: "\<forall>row \<in> set (Data birthdays).
      row ! nat (getColumnIndex birthdays ''BirthDate'') \<noteq> [] \<longrightarrow>
      try_formats time_Parse CleanDates_formats
        (row ! nat (getColumnIndex birthdays ''BirthDate'')) \<noteq> None"
    unfolding birthdays_facts by code_simp
  have d: "Data (fst (CleanDates time_Parse time_Format birthdays ''BirthDate'' ''02.01.2006'')) =
      [[''Ali'', ''15.01.1990''], [''Ayse'', ''20.05.1995''], [''Veli'', ''''],
       [''Zeynep'', ''01.03.1985'']]"
    by code_simp
  from CleanDates_layout_order [OF birthdays_facts(1,2) ok, of time_Format "''02.01.2006''"]
  obtain df' where r: "CleanDates time_Parse time_Format birthdays ''BirthDate'' ''02.01.2006'' =
      (df', Inr df')" and t: "Types df' = (Types birthdays)(''BirthDate'' \<mapsto> TypeDate)"
    by blast
  from r d have "Data df' = [[''Ali'', ''15.01.1990''], [''Ayse'', ''20.05.1995''], [''Veli'', ''''],
       [''Zeynep'', ''01.03.1985'']]"
    by simp
  with r t birthdays_facts show ?thesis by simp
qed

text \<open>
  The claim as stated has the caller's layout tried first. Here the caller's layout
  \<^verbatim>\<open>02.01.2006\<close> parses the cell \<^verbatim>\<open>15.01.1990\<close>, none of the four layouts of \<^verbatim>\<open>CleanDates\<close>
  does, and the call fails on row 0 instead of rewriting the cell.
\<close>

theorem CleanDates_layout_first_counterexample:
  "time_Parse ''02.01.2006'' ''15.01.1990'' =
     Some \<lparr>year = 1990, month = 1, day = 15, hour = 0, minute = 0, second = 0\<rparr> \<and>
   map_sum id Data (snd (CleanDates time_Parse time_Format visits ''Date'' ''02.01.2006'')) =
     Inl (DateParseFailure 0 ''Date'' ''15.01.1990'')"
  by code_simp

section \<open>Cell-parallel scheduling and the parallel date cleaner\<close>

lemma run_jobs_single:
  assumes "distinct order"
    and "\<forall>i \<in> set order. i < length rows \<and> processor (rows ! i) c = Inr (g (rows ! i))"
  shows "run_jobs processor (map (\<lambda>i. (i, c)) order) rows =
     (map (\<lambda>i. if i \<in> set order then g (rows ! i) else rows ! i) [0..<length rows], None)"
  using assms
proof (induction order arbitrary: rows)
  case Nil
  then show ?case by (simp add: map_nth)
next
  case (Cons j order)
  let ?rows = "rows[j := g (rows ! j)]"
  from Cons.prems have j: "j < length rows" "processor (rows ! j) c = Inr (g (rows ! j))"
    "j \<notin> set order" "distinct order"
    by auto
  have "\<forall>i \<in> set order. i < length ?rows \<and> processor (?rows ! i) c = Inr (g (?rows ! i))"
    using Cons.prems j(3) by (auto simp: nth_list_update)
  from Cons.IH [OF j(4) this] j
  have "run_jobs processor (map (\<lambda>i. (i, c)) (j # order)) rows =
     (map (\<lambda>i. if i \<in> set order then g (?rows ! i) else ?rows ! i) [0..<length rows], None)"
    by simp
  also have "map (\<lambda>i. if i \<in> set order then g (?rows ! i) else ?rows ! i) [0..<length rows] =
     map (\<lambda>i. if i \<in> set (j # order) then g (rows ! i) else rows ! i) [0..<length rows]"
    using j by (auto simp: nth_list_update)
  finally show ?case .
qed

lemma parallelizeColumns_single:
  assumes c: "c < length (Headers df)"
    and arr: "arrival (length (Data df)) order"
    and total: "\<forall>row \<in> set (Data df). processor row c = Inr (g row)"
  shows "parallelizeColumns [int c] processor order df = (df\<lparr>Data := map g (Data df)\<rparr>, None)"
proof (cases "Data df = []")
  case True
  then show ?thesis by (simp add: parallelizeColumns_def)
next
  case False
  let ?n = "length (Data df)"
  have jobs: "concat (map (\<lambda>i. map (\<lambda>colIdx. (i, colIdx)) [c]) [0..<?n]) =
      map (\<lambda>i. (i, c)) [0..<?n]"
    by (induction ?n) simp_all
  have j2: "map (\<lambda>k. map (\<lambda>i. (i, c)) [0..<?n] ! k) order = map (\<lambda>i. (i, c)) order"
    using arrival_set [OF arr] by (intro map_cong) auto
  have r1: "run_jobs processor (map (\<lambda>i. (i, c)) order) (Data df) =
      (map (\<lambda>i. if i \<in> set order then g (Data df ! i) else Data df ! i) [0..<?n], None)"
    using arrival_set [OF arr] total
    by (intro run_jobs_single arrival_distinct [OF arr]) auto
  have r2: "map (\<lambda>i. if i \<in> set order then g (Data df ! i) else Data df ! i) [0..<?n] =
      map g (Data df)"
    using arrival_set [OF arr] by (intro nth_equalityI) auto
  have "parallelizeColumns [int c] processor order df =
      (case run_jobs processor (map (\<lambda>k. map (\<lambda>i. (i, c)) [0..<?n] ! k) order) (Data df) of
         (rows, r) \<Rightarrow> (df\<lparr>Data := rows\<rparr>, r))"
    using False c by (simp add: parallelizeColumns_def jobs Let_def)
  also have "\<dots> = (df\<lparr>Data := map g (Data df)\<rparr>, None)"
    unfolding j2 r1 r2 by simp
  finally show ?thesis .
qed

lemma CleanDatesParallel_result:
  assumes col: "column \<in> set (Headers df)" and rect: "rect df"
    and arr: "arrival (length (Data df)) order"
  shows "CleanDatesParallel Parse Format order df column layout =
     (df\<lparr>Data := map (\<lambda>row. if row ! nat (getColumnIndex df column) = [] then row
                            else case parseDate Parse (row ! nat (getColumnIndex df column)) layout of
                                   None \<Rightarrow> row
                                 | Some t \<Rightarrow> row[nat (getColumnIndex df column) := Format t layout])
                     (Data df)\<rparr>,
      Inr (df\<lparr>Data := map (\<lambda>row. if row ! nat (getColumnIndex df column) = [] then row
                            else case parseDate Parse (row ! nat (getColumnIndex df column)) layout of
                                   None \<Rightarrow> row
                                 | Some t \<Rightarrow> row[nat (getColumnIndex df column) := Format t layout])
                     (Data df)\<rparr>))"
proof -
  define c where "c = nat (getColumnIndex df column)"
  define g where "g = (\<lambda>row :: string list. if row ! c = [] then row
      else case parseDate Parse (row ! c) layout of
             None \<Rightarrow> row | Some t \<Rightarrow> row[c := Format t layout])"
  from col have found: "getColumnIndex df column \<noteq> -1"
    by (simp add: getColumnIndex_absent)
  then have c: "c < length (Headers df)" and ic: "getColumnIndex df column = int c"
    unfolding c_def using getColumnIndex_present [OF found] by simp_all
  have "parallelizeColumns [int c]
      (\<lambda>row colIdx.
          if \<not> colIdx < length row then Inl IndexOutOfRange
          else if row ! colIdx = [] then Inr row
          else case parseDate Parse (row ! colIdx) layout of
                 None \<Rightarrow> Inr row
               | Some t \<Rightarrow> Inr (row[colIdx := Format t layout]))
      order df = (df\<lparr>Data := map g (Data df)\<rparr>, None)"
    using c arr
  proof (rule parallelizeColumns_single)
    show "\<forall>row \<in> set (Data df).
        (if \<not> c < length row then Inl IndexOutOfRange
         else if row ! c = [] then Inr row
         else case parseDate Parse (row ! c) layout of
                None \<Rightarrow> Inr row
              | Some t \<Rightarrow> Inr (row[c := Format t layout])) = Inr (g row)"
      using c rect by (auto simp: g_def rect_def list_all_iff split: option.splits)
  qed
  with found ic show ?thesis
    unfolding c_def [symmetric] g_def [symmetric]
    by (simp add: CleanDatesParallel_def returned_def)
qed

text \<open>
  Claim C3, as amended. On a rectangular table with the column:
  \<^item> if some non-empty cell of the column parses under no layout of \<^verbatim>\<open>parseDate\<close>, then
    sequential \<^verbatim>\<open>CleanDates\<close> fails with \<open>DateParseFailure\<close> carrying the index of the first
    row it cannot parse, the column name and that row's raw cell; the rows before it
    are left rewritten, that row and the rows after it are as they were;
  \<^item> \<^verbatim>\<open>CleanDatesParallel\<close> succeeds for every arrival order, leaves every unparseable
    cell's row as it was, and returns unchanged a value that the output layout parses
    and formats back to itself;
  \<^item> sequential \<^verbatim>\<open>CleanDates\<close> returns a value unchanged when the first of its own four
    layouts that parses it gives a time that the output layout formats back to the
    value (as for \<^verbatim>\<open>1990-01-15\<close> with \<^verbatim>\<open>2006-01-02\<close>) and no row up to it fails.
\<close>

theorem CleanDates_unparseable:
  assumes col: "column \<in> set (Headers df)" and rect: "rect df"
    and arr: "arrival (length (Data df)) order"
  shows
   "((\<exists>i < length (Data df). Data df ! i ! nat (getColumnIndex df column) \<noteq> [] \<and>
        parseDate Parse (Data df ! i ! nat (getColumnIndex df column)) layout = None) \<longrightarrow>
     (\<exists>k < length (Data df).
        Data df ! k ! nat (getColumnIndex df column) \<noteq> [] \<and>
        try_formats Parse CleanDates_formats (Data df ! k ! nat (getColumnIndex df column)) = None \<and>
        snd (CleanDates Parse Format df column layout) =
          Inl (DateParseFailure k column (Data df ! k ! nat (getColumnIndex df column))) \<and>
        length (Data (fst (CleanDates Parse Format df column layout))) = length (Data df) \<and>
        (\<forall>j < k. Data (fst (CleanDates Parse Format df column layout)) ! j =
           (if Data df ! j ! nat (getColumnIndex df column) = [] then Data df ! j
            else (Data df ! j)[nat (getColumnIndex df column) :=
                   Format (the (try_formats Parse CleanDates_formats
                                  (Data df ! j ! nat (getColumnIndex df column)))) layout])) \<and>
        (\<forall>j. k \<le> j \<and> j < length (Data df) \<longrightarrow>
           Data (fst (CleanDates Parse Format df column layout)) ! j = Data df ! j))) \<and>
    (\<exists>df'. CleanDatesParallel Parse Format order df column layout = (df', Inr df') \<and>
       length (Data df') = length (Data df) \<and>
       (\<forall>i < length (Data df).
          Data df ! i ! nat (getColumnIndex df column) \<noteq> [] \<and>
          parseDate Parse (Data df ! i ! nat (getColumnIndex df column)) layout = None
          \<longrightarrow> Data df' ! i = Data df ! i) \<and>
       (\<forall>i < length (Data df). \<forall>t.
          Parse layout (Data df ! i ! nat (getColumnIndex df column)) = Some t \<and>
          Format t layout = Data df ! i ! nat (getColumnIndex df column)
          \<longrightarrow> Data df' ! i = Data df ! i)) \<and>
    (\<forall>i < length (Data df). \<forall>t.
       (\<forall>j \<le> i. Data df ! j ! nat (getColumnIndex df column) \<noteq> [] \<longrightarrow>
          try_formats Parse CleanDates_formats (Data df ! j ! nat (getColumnIndex df column)) \<noteq> None) \<and>
       try_formats Parse CleanDates_formats (Data df ! i ! nat (getColumnIndex df column)) = Some t \<and>
       Format t layout = Data df ! i ! nat (getColumnIndex df column)
       \<longrightarrow> Data (fst (CleanDates Parse Format df column layout)) ! i = Data df ! i)"
proof -
  define c where "c = nat (getColumnIndex df column)"
  define n where "n = length (Data df)"
  define g where "g = (\<lambda>row :: string list. if row ! c = [] then row
      else row[c := Format (the (try_formats Parse CleanDates_formats (row ! c))) layout])"
  define bad where "bad = (\<lambda>j. j < n \<and> Data df ! j ! c \<noteq> [] \<and>
      try_formats Parse CleanDates_formats (Data df ! j ! c) = None)"
  have fail: "CleanDates Parse Format df column layout =
      (df\<lparr>Data := map g (take k (Data df)) @ drop k (Data df)\<rparr>,
       Inl (DateParseFailure k column (Data df ! k ! c)))"
    if "bad k" "\<forall>j < k. \<not> bad j" for k
  proof -
    from that have "k < length (Data df)" "Data df ! k ! c \<noteq> []"
      "try_formats Parse CleanDates_formats (Data df ! k ! c) = None"
      "\<forall>j < k. Data df ! j ! c \<noteq> [] \<longrightarrow>
         try_formats Parse CleanDates_formats (Data df ! j ! c) \<noteq> None"
      by (auto simp: bad_def n_def)
    from CleanDates_fail [OF col rect this [unfolded c_def], of Format layout]
    show ?thesis unfolding c_def [symmetric] g_def [symmetric] .
  qed
  have ok: "CleanDates Parse Format df column layout =
      (df\<lparr>Data := map g (Data df), Types := (Types df)(column \<mapsto> TypeDate)\<rparr>,
       Inr (df\<lparr>Data := map g (Data df), Types := (Types df)(column \<mapsto> TypeDate)\<rparr>))"
    if "\<forall>j. \<not> bad j"
  proof -
    from that have "\<forall>row \<in> set (Data df). row ! c \<noteq> [] \<longrightarrow>
        try_formats Parse CleanDates_formats (row ! c) \<noteq> None"
      by (auto simp: bad_def n_def in_set_conv_nth)
    from CleanDates_ok [OF col rect this [unfolded c_def], of Format layout]
    show ?thesis unfolding c_def [symmetric] g_def [symmetric] .
  qed
  have first: "\<exists>k. bad k \<and> (\<forall>j < k. \<not> bad j)" if "bad i" for i
    using that by (metis (full_types) LeastI not_less_Least)
  have part1: "\<exists>k < n. Data df ! k ! c \<noteq> [] \<and>
        try_formats Parse CleanDates_formats (Data df ! k ! c) = None \<and>
        snd (CleanDates Parse Format df column layout) =
          Inl (DateParseFailure k column (Data df ! k ! c)) \<and>
        length (Data (fst (CleanDates Parse Format df column layout))) = n \<and>
        (\<forall>j < k. Data (fst (CleanDates Parse Format df column layout)) ! j =
           (if Data df ! j ! c = [] then Data df ! j
            else (Data df ! j)[c := Format (the (try_formats Parse CleanDates_formats
                                                  (Data df ! j ! c))) layout])) \<and>
        (\<forall>j. k \<le> j \<and> j < n \<longrightarrow>
           Data (fst (CleanDates Parse Format df column layout)) ! j = Data df ! j)"
    if some: "\<exists>i < n. Data df ! i ! c \<noteq> [] \<and> parseDate Parse (Data df ! i ! c) layout = None"
  proof -
    from some obtain i where "bad i"
      by (auto simp: bad_def dest: parseDate_None_CleanDates_formats)
    from first [OF this] obtain k where k: "bad k" "\<forall>j < k. \<not> bad j" by blast
    note r = fail [OF k]
    from k(1) have kn: "k < n" by (simp add: bad_def)
    have "\<forall>j < k. Data (fst (CleanDates Parse Format df column layout)) ! j = g (Data df ! j)"
      using kn by (simp add: r nth_append n_def)
    moreover have "\<forall>j. k \<le> j \<and> j < n \<longrightarrow>
        Data (fst (CleanDates Parse Format df column layout)) ! j = Data df ! j"
      using kn by (auto simp: r nth_append n_def)
    moreover have "length (Data (fst (CleanDates Parse Format df column layout))) = n"
      using kn by (simp add: r n_def)
    ultimately show ?thesis
      using k(1) r unfolding bad_def g_def by (intro exI [of _ k]) simp
  qed
  let ?h = "\<lambda>row. if row ! c = [] then row
      else case parseDate Parse (row ! c) layout of
             None \<Rightarrow> row | Some t \<Rightarrow> row[c := Format t layout]"
  have par: "CleanDatesParallel Parse Format order df column layout =
      (df\<lparr>Data := map ?h (Data df)\<rparr>, Inr (df\<lparr>Data := map ?h (Data df)\<rparr>))"
    using CleanDatesParallel_result [OF col rect arr, of Parse Format layout]
    unfolding c_def [symmetric] .
  have part2: "\<exists>df'. CleanDatesParallel Parse Format order df column layout = (df', Inr df') \<and>
       length (Data df') = n \<and>
       (\<forall>i < n. Data df ! i ! c \<noteq> [] \<and> parseDate Parse (Data df ! i ! c) layout = None
          \<longrightarrow> Data df' ! i = Data df ! i) \<and>
       (\<forall>i < n. \<forall>t. Parse layout (Data df ! i ! c) = Some t \<and> Format t layout = Data df ! i ! c
          \<longrightarrow> Data df' ! i = Data df ! i)"
  proof (intro exI [of _ "df\<lparr>Data := map ?h (Data df)\<rparr>"] conjI allI impI)
    show "CleanDatesParallel Parse Format order df column layout =
      (df\<lparr>Data := map ?h (Data df)\<rparr>, Inr (df\<lparr>Data := map ?h (Data df)\<rparr>))"
      by (rule par)
    show "length (Data (df\<lparr>Data := map ?h (Data df)\<rparr>)) = n"
      by (simp add: n_def)
  next
    fix i
    assume "i < n"
      and "Data df ! i ! c \<noteq> [] \<and> parseDate Parse (Data df ! i ! c) layout = None"
    then show "Data (df\<lparr>Data := map ?h (Data df)\<rparr>) ! i = Data df ! i"
      by (simp add: n_def)
  next
    fix i t
    assume i: "i < n"
      and rt: "Parse layout (Data df ! i ! c) = Some t \<and> Format t layout = Data df ! i ! c"
    then have "parseDate Parse (Data df ! i ! c) layout = Some t"
      by (simp add: parseDate_layout_first)
    with i rt show "Data (df\<lparr>Data := map ?h (Data df)\<rparr>) ! i = Data df ! i"
      by (simp add: n_def)
  qed
  have part3: "Data (fst (CleanDates Parse Format df column layout)) ! i = Data df ! i"
    if i: "i < n"
      and h: "(\<forall>j \<le> i. Data df ! j ! c \<noteq> [] \<longrightarrow>
                try_formats Parse CleanDates_formats (Data df ! j ! c) \<noteq> None) \<and>
              try_formats Parse CleanDates_formats (Data df ! i ! c) = Some t \<and>
              Format t layout = Data df ! i ! c"
    for i t
  proof -
    from h have gi: "g (Data df ! i) = Data df ! i"
      by (simp add: g_def)
    show ?thesis
    proof (cases "\<exists>j. bad j")
      case True
      then obtain k where k: "bad k" "\<forall>j < k. \<not> bad j" using first by blast
      from k(1) h have "i < k"
        by (metis bad_def not_le_imp_less)
      with k(1) i gi show ?thesis
        by (simp add: fail [OF k] nth_append bad_def n_def)
    next
      case False
      then have "\<forall>j. \<not> bad j" by simp
      from ok [OF this] i gi show ?thesis by (simp add: n_def)
    qed
  qed
  from part1 part2 part3 show ?thesis
    unfolding c_def [symmetric] n_def [symmetric] by blast
qed

lemma births_facts:
  "''BirthDate'' \<in> set (Headers births)" "rect births" "length (Data births) = 4"
  "getColumnIndex births ''BirthDate'' = 1"
  by (simp_all add: births_def rect_def getColumnIndex_def)

theorem CleanDates_unparseable_witness:
  "''BirthDate'' \<in> set (Headers births) \<and> rect births \<and>
   arrival (length (Data births)) [2, 0, 3, 1] \<and>
   parseDate time_Parse ''invalid-date'' ''2006-01-02'' = None \<and>
   map_sum id Data (snd (CleanDates time_Parse time_Format births ''BirthDate'' ''2006-01-02'')) =
     Inl (DateParseFailure 2 ''BirthDate'' ''invalid-date'') \<and>
   Data (fst (CleanDates time_Parse time_Format births ''BirthDate'' ''2006-01-02'')) =
     [[''Ali'', ''1990-01-15''], [''Ayse'', ''1995-05-20''], [''Can'', ''invalid-date''],
      [''Zeynep'', ''01/03/1985'']] \<and>
   (\<exists>df'. CleanDatesParallel time_Parse time_Format [2, 0, 3, 1] births ''BirthDate''
             ''2006-01-02'' = (df', Inr df') \<and>
      Data df' = [[''Ali'', ''1990-01-15''], [''Ayse'', ''1995-05-20''], [''Can'', ''invalid-date''],
                  [''Zeynep'', ''1985-03-01'']])"
proof -
  have a: "arrival (length (Data births)) [2, 0, 3, 1]"
    unfolding births_facts by code_simp
  have p: "parseDate time_Parse ''invalid-date'' ''2006-01-02'' = None"
    by code_simp
  have s: "map_sum id Data (snd (CleanDates time_Parse time_Format births ''BirthDate''
      ''2006-01-02'')) = Inl (DateParseFailure 2 ''BirthDate'' ''invalid-date'')"
    by code_simp
  have r: "Data (fst (CleanDates time_Parse time_Format births ''BirthDate'' ''2006-01-02'')) =
     [[''Ali'', ''1990-01-15''], [''Ayse'', ''1995-05-20''], [''Can'', ''invalid-date''],
      [''Zeynep'', ''01/03/1985'']]"
    by code_simp
  have d: "Data (fst (CleanDatesParallel time_Parse time_Format [2, 0, 3, 1] births ''BirthDate''
      ''2006-01-02'')) =
     [[''Ali'', ''1990-01-15''], [''Ayse'', ''1995-05-20''], [''Can'', ''invalid-date''],
      [''Zeynep'', ''1985-03-01'']]"
    by code_simp
  from CleanDates_unparseable [OF births_facts(1,2) a, of time_Parse "''2006-01-02''" time_Format]
  obtain df' where "CleanDatesParallel time_Parse time_Format [2, 0, 3, 1] births ''BirthDate''
      ''2006-01-02'' = (df', Inr df')"
    by blast
  with d have "\<exists>df'. CleanDatesParallel time_Parse time_Format [2, 0, 3, 1] births ''BirthDate''
             ''2006-01-02'' = (df', Inr df') \<and>
      Data df' = [[''Ali'', ''1990-01-15''], [''Ayse'', ''1995-05-20''], [''Can'', ''invalid-date''],
                  [''Zeynep'', ''1985-03-01'']]"
    by simp
  with a p s r births_facts show ?thesis by blast
qed

text \<open>
  The claim as stated has both variants return unchanged a parseable value that is
  already in the output layout. The value \<^verbatim>\<open>03/04/2020\<close> is in the output layout
  \<^verbatim>\<open>01/02/2006\<close> (it parses to 4 March 2020, which formats back to it); sequential
  \<^verbatim>\<open>CleanDates\<close> parses it with \<^verbatim>\<open>02/01/2006\<close> first, as 3 April 2020, and rewrites the cell
  to \<^verbatim>\<open>04/03/2020\<close>; the parallel variant leaves it.
\<close>

theorem CleanDates_unchanged_counterexample:
  "time_Parse ''01/02/2006'' ''03/04/2020'' =
     Some \<lparr>year = 2020, month = 3, day = 4, hour = 0, minute = 0, second = 0\<rparr> \<and>
   time_Format \<lparr>year = 2020, month = 3, day = 4, hour = 0, minute = 0, second = 0\<rparr>
     ''01/02/2006'' = ''03/04/2020'' \<and>
   Data (fst (CleanDates time_Parse time_Format trips ''Date'' ''01/02/2006'')) =
     [[''Ali'', ''04/03/2020'']] \<and>
   Data (fst (CleanDatesParallel time_Parse time_Format [0] trips ''Date'' ''01/02/2006'')) =
     [[''Ali'', ''03/04/2020'']]"
  by code_simp

section \<open>The batch combinator\<close>

lemma Copy_value: "Copy df = df"
  by (simp add: Copy_def map_idI)

lemma collect_all:
  assumes "\<forall>i \<in> set order. f i = Inr (out i)"
  shows "collect (map (\<lambda>i. (i, f i)) order) m =
         Inr (\<lambda>k. if k \<in> set order then Some (out k) else m k)"
  using assms
proof (induction order arbitrary: m)
  case Nil
  then show ?case by simp
next
  case (Cons i order)
  from Cons.prems have "\<forall>i \<in> set order. f i = Inr (out i)" "f i = Inr (out i)"
    by auto
  from Cons.IH [OF this(1)] this(2) show ?case
    by auto
qed

lemma collect_error:
  assumes "\<exists>i \<in> set order. \<exists>e. f i = Inl e"
  shows "\<exists>i \<in> set order. \<exists>e. f i = Inl e \<and> collect (map (\<lambda>i. (i, f i)) order) m = Inl e"
  using assms
proof (induction order arbitrary: m)
  case Nil
  then show ?case by simp
next
  case (Cons i order)
  show ?case
  proof (cases "f i")
    case (Inl e)
    then show ?thesis by auto
  next
    case (Inr d)
    with Cons.prems have "\<exists>i \<in> set order. \<exists>e. f i = Inl e" by auto
    from Cons.IH [OF this, of "m(i \<mapsto> d)"] obtain j e where j: "j \<in> set order"
      "f j = Inl e" "collect (map (\<lambda>i. (i, f i)) order) (m(i \<mapsto> d)) = Inl e"
      by blast
    have "collect (map (\<lambda>i. (i, f i)) (i # order)) m = Inl e"
      using Inr j(3) by simp
    with j(1,2) show ?thesis by (intro bexI [of _ j] exI [of _ e]) simp_all
  qed
qed

lemma combine_all:
  assumes "\<forall>i \<in> set is. m i = Some (out i)"
  shows "combine m is r = Inr (if is = [] then r else out (last is))"
  using assms by (induction "is" arbitrary: r) auto

text \<open>
  Claim C6. For a non-empty list of processors and every arrival order of their
  results, \<^verbatim>\<open>BatchProcessParallel\<close> applies each processor to \<open>Copy df\<close>, a table with the
  headers, rows and type map of the receiver; the receiver is left as it was; if some
  processor returns an error, the call fails with the error of one of the failing
  processors; if none does, the call returns exactly what the last processor of the
  list returned, whatever the earlier ones returned.
\<close>

theorem BatchProcessParallel_last_wins:
  assumes ne: "processors \<noteq> []" and arr: "arrival (length processors) order"
  shows "fst (BatchProcessParallel order df processors) = df \<and>
     Headers (Copy df) = Headers df \<and> Data (Copy df) = Data df \<and> Types (Copy df) = Types df \<and>
     ((\<exists>i < length processors. \<exists>e. (processors ! i) (Copy df) = Inl e) \<longrightarrow>
        (\<exists>i < length processors. \<exists>e. (processors ! i) (Copy df) = Inl e \<and>
           snd (BatchProcessParallel order df processors) = Inl e)) \<and>
     ((\<forall>i < length processors. \<exists>d. (processors ! i) (Copy df) = Inr d) \<longrightarrow>
        snd (BatchProcessParallel order df processors) = (last processors) (Copy df))"
proof (intro conjI impI)
  show "fst (BatchProcessParallel order df processors) = df"
    by (simp add: BatchProcessParallel_def Let_def split: sum.splits)
  show "Headers (Copy df) = Headers df" "Data (Copy df) = Data df" "Types (Copy df) = Types df"
    by (simp_all add: Copy_value)
next
  assume "\<exists>i < length processors. \<exists>e. (processors ! i) (Copy df) = Inl e"
  then have "\<exists>i \<in> set order. \<exists>e. (processors ! i) (Copy df) = Inl e"
    using arrival_set [OF arr] by auto
  from collect_error [OF this, of Map.empty]
  obtain i e where "i \<in> set order" "(processors ! i) (Copy df) = Inl e"
    "collect (map (\<lambda>i. (i, (processors ! i) (Copy df))) order) Map.empty = Inl e"
    by blast
  with ne arrival_set [OF arr]
  show "\<exists>i < length processors. \<exists>e. (processors ! i) (Copy df) = Inl e \<and>
           snd (BatchProcessParallel order df processors) = Inl e"
    by (intro exI [of _ i] exI [of _ e]) (simp add: BatchProcessParallel_def)
next
  assume "\<forall>i < length processors. \<exists>d. (processors ! i) (Copy df) = Inr d"
  then obtain out where out: "\<forall>i < length processors. (processors ! i) (Copy df) = Inr (out i)"
    by metis
  let ?n = "length processors"
  from out have "\<forall>i \<in> set order. (processors ! i) (Copy df) = Inr (out i)"
    using arrival_set [OF arr] by simp
  from collect_all [OF this, of Map.empty]
  have c: "collect (map (\<lambda>i. (i, (processors ! i) (Copy df))) order) Map.empty =
      Inr (\<lambda>k. if k < ?n then Some (out k) else None)"
    using arrival_set [OF arr] by simp
  have "combine (\<lambda>k. if k < ?n then Some (out k) else None) [0..<?n] (Some (Copy df)) =
      Inr (if [0..<?n] = [] then Some (Copy df) else out (last [0..<?n]))"
    by (rule combine_all) simp
  with ne have "combine (\<lambda>k. if k < ?n then Some (out k) else None) [0..<?n] (Some (Copy df)) =
      Inr (out (?n - 1))"
    by simp
  moreover from ne out have "(last processors) (Copy df) = Inr (out (?n - 1))"
    by (simp add: last_conv_nth)
  ultimately show "snd (BatchProcessParallel order df processors) = (last processors) (Copy df)"
    using ne c by (simp add: BatchProcessParallel_def)
qed

lemma people_facts:
  "''Age'' \<in> set (Headers people)" "''Name'' \<in> set (Headers people)" "rect people"
  "''City'' \<notin> set (Headers people)"
  by (simp_all add: people_def rect_def)

theorem BatchProcessParallel_last_wins_witness:
  "[fill_name, fill_age] \<noteq> [] \<and> arrival (length [fill_name, fill_age]) [1, 0] \<and>
   fst (BatchProcessParallel [1, 0] people [fill_name, fill_age]) = people \<and>
   snd (BatchProcessParallel [1, 0] people [fill_name, fill_age]) =
     Inr (Some (people\<lparr>Data := [[''Ali'', ''0''], [''Ayse'', ''25'']]\<rparr>)) \<and>
   snd (BatchProcessParallel [1, 0] people [fill_city, fill_age]) = Inl (ColumnNotFound ''City'')"
proof -
  have a: "arrival (length [fill_name, fill_age]) [1, 0]"
    "arrival (length [fill_city, fill_age]) [1, 0]"
    by (simp_all add: arrival_def upt_rec)
  have age: "fill_age people = Inr (Some (people\<lparr>Data := [[''Ali'', ''0''], [''Ayse'', ''25'']]\<rparr>))"
    by (simp add: fill_age_def ReplaceNulls_def getColumnIndex_def people_def finish_def
        ReplaceNulls_body_def)
  have name: "fill_name people = Inr (Some people)"
    by (simp add: fill_name_def ReplaceNulls_def getColumnIndex_def people_def finish_def
        ReplaceNulls_body_def)
  have city: "fill_city people = Inl (ColumnNotFound ''City'')"
    by (simp add: fill_city_def ReplaceNulls_def getColumnIndex_def people_def)
  note ok = BatchProcessParallel_last_wins [OF _ a(1), of people]
  note bad = BatchProcessParallel_last_wins [OF _ a(2), of people]
  have all: "\<forall>i < length [fill_name, fill_age].
      \<exists>d. ([fill_name, fill_age] ! i) (Copy people) = Inr d"
    by (simp add: Copy_value less_Suc_eq_0_disj name age)
  from ok all have 1: "fst (BatchProcessParallel [1, 0] people [fill_name, fill_age]) = people"
    and 2: "snd (BatchProcessParallel [1, 0] people [fill_name, fill_age]) =
      Inr (Some (people\<lparr>Data := [[''Ali'', ''0''], [''Ayse'', ''25'']]\<rparr>))"
    by (simp_all add: Copy_value age)
  have some: "\<exists>i < length [fill_city, fill_age].
      \<exists>e. ([fill_city, fill_age] ! i) (Copy people) = Inl e"
    by (intro exI [of _ 0]) (simp add: Copy_value city)
  with bad obtain i e where "i < length [fill_city, fill_age]"
    "([fill_city, fill_age] ! i) (Copy people) = Inl e"
    "snd (BatchProcessParallel [1, 0] people [fill_city, fill_age]) = Inl e"
    by blast
  then have 3: "snd (BatchProcessParallel [1, 0] people [fill_city, fill_age]) =
      Inl (ColumnNotFound ''City'')"
    by (auto simp: Copy_value less_Suc_eq_0_disj city age)
  from a 1 2 3 show ?thesis by simp
qed

end
